theory Spec2Isabelle
  imports Complex_Main "HOL-Library.Monad_Syntax" "HOL-Library.Multiset" "HOL-Library.Log_Nat"
begin

section \<open>The timetabling solver of main\_comentada.c\<close>

text \<open>
  The program keeps the instance, the auxiliary indices of the objective function and
  the violation counters in file-scope variables. The model splits them in two records:
  \<open>Problema\<close> holds what \<open>leArquivos\<close> and \<open>construcao\<close> fix for a whole phase,
  \<open>Indices\<close> holds the arrays that \<open>calcula_FO\<close> and \<open>geraViz\<close> overwrite.

  C's \<open>int\<close> is modelled by \<open>int\<close>. The objective \<open>fo\<close>, the one \<open>int\<close> that sums
  the weights of \<open>1000000\<close>, is kept in 32 bits by \<open>c_int\<close> below; the counters, the
  subscripts and the numbers read from the instance are exact.
  A subscript outside its array is undefined in C; every array access of the model is
  checked and the function returns \<open>None\<close> there. The numbers of courses, rooms,
  days, periods, curricula and teachers are natural numbers.
\<close>

subsection \<open>Checked arrays and loops\<close>

definition le :: "'a list \<Rightarrow> int \<Rightarrow> 'a option" where
  "le v i = (if 0 \<le> i \<and> i < int (length v) then Some (v ! nat i) else None)"

definition esc :: "'a list \<Rightarrow> int \<Rightarrow> 'a \<Rightarrow> 'a list option" where
  "esc v i x = (if 0 \<le> i \<and> i < int (length v) then Some (v[nat i := x]) else None)"

definition le2 :: "'a list list \<Rightarrow> int \<Rightarrow> int \<Rightarrow> 'a option" where
  "le2 m i j = do { l \<leftarrow> le m i; le l j }"

definition esc2 :: "'a list list \<Rightarrow> int \<Rightarrow> int \<Rightarrow> 'a \<Rightarrow> 'a list list option" where
  "esc2 m i j x = do { l \<leftarrow> le m i; l' \<leftarrow> esc l j x; esc m i l' }"

text \<open>\<open>para k f s\<close> is the loop \<^verbatim>\<open>for(i = 0; i < k; i++) s = f(i, s);\<close>,
  stopping at the first undefined step.\<close>

primrec para :: "nat \<Rightarrow> (nat \<Rightarrow> 'a \<Rightarrow> 'a option) \<Rightarrow> 'a \<Rightarrow> 'a option" where
  "para 0 f s = Some s"
| "para (Suc k) f s = do { s' \<leftarrow> para k f s; f k s' }"

text \<open>\<open>quando m Q\<close>: if the computation \<open>m\<close> is defined, its result satisfies \<open>Q\<close>.\<close>

definition quando :: "'a option \<Rightarrow> ('a \<Rightarrow> bool) \<Rightarrow> bool" where
  "quando m Q \<longleftrightarrow> (\<forall>x. m = Some x \<longrightarrow> Q x)"

text \<open>C's integer division and remainder truncate towards zero; a zero divisor is
  undefined.\<close>

definition quociente :: "int \<Rightarrow> int \<Rightarrow> int" where
  "quociente a b = sgn a * sgn b * (\<bar>a\<bar> div \<bar>b\<bar>)"

definition resto :: "int \<Rightarrow> int \<Rightarrow> int" where
  "resto a b = sgn a * (\<bar>a\<bar> mod \<bar>b\<bar>)"

definition c_div :: "int \<Rightarrow> int \<Rightarrow> int option" where
  "c_div a b = (if b = 0 then None else Some (quociente a b))"

definition c_mod :: "int \<Rightarrow> int \<Rightarrow> int option" where
  "c_mod a b = (if b = 0 then None else Some (resto a b))"

text \<open>\<open>fo\<close> is an \<open>int\<close> of 32 bits (line 84 and line 730). \<open>c_int\<close> brings an integer
  into the range of \<open>int\<close> as the two's-complement machine does, modulo \<open>2 ^ 32\<close>; the
  model applies it to every sum and product that the source computes into \<open>fo\<close>. (ISO
  C leaves the overflow of a signed sum undefined; the compiled program wraps.)\<close>

definition c_int :: "int \<Rightarrow> int" where
  "c_int x = (x + 2147483648) mod 4294967296 - 2147483648"

subsection \<open>Data\<close>

record Matriz =
  mat_fo :: int
  mat_n :: "int list list"

record Disciplina =
  disc_cursos :: "int list"
  disc_prof :: int
  disc_aulas :: int
  disc_minDias :: int
  disc_alunos :: int
  disc_tipo_sala :: int

record Sala =
  sala_capacidade :: int
  sala_tipo_sala :: int

record Restricao =
  restricao_disciplina :: int
  restricao_dia :: int
  restricao_per :: int

text \<open>\<open>dias_ocupados_integral\<close> is a pointer that may be \<open>NULL\<close> (\<open>None\<close>).\<close>

record Problema =
  disc :: "Disciplina list"
  sala :: "Sala list"
  restricao :: "Restricao list"
  posicao_restricao_0 :: "int list"
  posicao_restricao_1 :: "int list"
  professores :: nat
  disciplinas :: nat
  salas :: nat
  dias :: nat
  periodos_dia :: nat
  cursos :: nat
  usar_restricao_integral :: int
  dias_ocupados_integral :: "int list list option"
  num_profs_da_integral :: int

definition total_periodos :: "Problema \<Rightarrow> nat" where
  "total_periodos P = periodos_dia P * dias P"

record Indices =
  r1 :: "int list"
  r21 :: "int list list"
  r22 :: "int list list"
  r5 :: "int list list"
  r8 :: "int list"
  r9 :: "int list list"
  r11 :: "int list list"
  restricoes_violadas :: "int list"
  aux_mov_r21 :: "int list"
  aux_mov_r22 :: "int list"
  aux_mov_r4 :: "int list"
  aux_mov_r5 :: "int list"
  aux_mov_r6 :: "int list list"
  aux_mov_r7 :: "int list list"
  aux_mov_r8 :: "int list"
  aux_mov_r9 :: "int list"
  aux_mov_r10 :: "int list list"
  aux_mov_r11 :: "int list list"

text \<open>The shapes \<open>leArquivos\<close> allocates (lines 513 to 553); \<open>restricoes_violadas\<close>
  is the static array of 12 counters.\<close>

definition alocado :: "Problema \<Rightarrow> Indices \<Rightarrow> bool" where
  "alocado P s \<longleftrightarrow>
     length (r1 s) = disciplinas P \<and>
     map length (r21 s) = replicate (total_periodos P) (professores P) \<and>
     map length (r22 s) = replicate (total_periodos P) (cursos P) \<and>
     map length (r5 s) = replicate (disciplinas P) (dias P) \<and>
     length (r8 s) = disciplinas P \<and>
     map length (r9 s) = replicate (professores P) (dias P) \<and>
     map length (r11 s) = replicate (dias P) (disciplinas P) \<and>
     length (restricoes_violadas s) = 12 \<and>
     length (aux_mov_r21 s) = disciplinas P \<and>
     length (aux_mov_r22 s) = disciplinas P \<and>
     length (aux_mov_r4 s) = disciplinas P \<and>
     length (aux_mov_r5 s) = disciplinas P \<and>
     map length (aux_mov_r6 s) = replicate (total_periodos P) (salas P) \<and>
     map length (aux_mov_r7 s) = replicate (disciplinas P) 2 \<and>
     length (aux_mov_r8 s) = total_periodos P \<and>
     length (aux_mov_r9 s) = professores P \<and>
     map length (aux_mov_r10 s) = replicate (disciplinas P) 2 \<and>
     map length (aux_mov_r11 s) = replicate (total_periodos P) (salas P)"

text \<open>The shape of the indices alone, for the proofs that no step of the program
  resizes an array.\<close>

definition forma :: "Indices \<Rightarrow> nat list list" where
  "forma s =
     [[length (r1 s)], map length (r21 s), map length (r22 s), map length (r5 s),
      [length (r8 s)], map length (r9 s), map length (r11 s),
      [length (restricoes_violadas s)], [length (aux_mov_r21 s)], [length (aux_mov_r22 s)],
      [length (aux_mov_r4 s)], [length (aux_mov_r5 s)], map length (aux_mov_r6 s),
      map length (aux_mov_r7 s), [length (aux_mov_r8 s)], [length (aux_mov_r9 s)],
      map length (aux_mov_r10 s), map length (aux_mov_r11 s)]"

subsection \<open>Helpers of the objective function\<close>

definition modulo :: "int \<Rightarrow> int \<Rightarrow> int" where
  "modulo n1 n2 = (if n1 > n2 then n1 - n2 else n2 - n1)"

definition setVetor :: "int list \<Rightarrow> nat \<Rightarrow> int \<Rightarrow> int list option" where
  "setVetor vetor tamanho valor = para tamanho (\<lambda>i v. esc v (int i) valor) vetor"

definition setMatriz :: "int list list \<Rightarrow> nat \<Rightarrow> nat \<Rightarrow> int \<Rightarrow> int list list option" where
  "setMatriz vetor linha coluna valor =
     para linha (\<lambda>i m. para coluna (\<lambda>j m'. esc2 m' (int i) (int j) valor) m) vetor"

text \<open>\<open>restricaoR4\<close>: the scan of \<open>restricao[posicao_restricao[0][dis] .. posicao_restricao[1][dis]]\<close>,
  leaving at the first record that forbids the period.\<close>

fun busca_r4 :: "Problema \<Rightarrow> int \<Rightarrow> int \<Rightarrow> int \<Rightarrow> int list \<Rightarrow> int option" where
  "busca_r4 P dis dia diaPer [] = Some 0"
| "busca_r4 P dis dia diaPer (i # is) = do {
     r \<leftarrow> le (restricao P) i;
     if restricao_disciplina r = dis \<and> restricao_dia r = dia \<and> restricao_per r = diaPer
     then Some 1
     else busca_r4 P dis dia diaPer is }"

definition restricaoR4 :: "Problema \<Rightarrow> int \<Rightarrow> int \<Rightarrow> int option" where
  "restricaoR4 P dis per = do {
     dia \<leftarrow> c_div per (int (periodos_dia P));
     diaPer \<leftarrow> c_mod per (int (periodos_dia P));
     p0 \<leftarrow> le (posicao_restricao_0 P) dis;
     if p0 = -1 then Some 0
     else do {
       p1 \<leftarrow> le (posicao_restricao_1 P) dis;
       busca_r4 P dis dia diaPer [p0..p1] } }"


text \<open>\<open>restricaoR6\<close>, the body of the loop over the rooms \<open>j\<close> (lines 645 to 666).
  The source leaves the loop by setting \<open>j = salas\<close> once \<open>ok\<close> is 1; both tests
  are guarded by \<open>ok == 0\<close>, so the iterations that follow change nothing.\<close>

definition r6_vizinho :: "Problema \<Rightarrow> int list list \<Rightarrow> int \<Rightarrow> int \<Rightarrow> int \<Rightarrow> int option" where
  "r6_vizinho P n per j i = do {
     c \<leftarrow> le2 n per j;
     if c \<noteq> -1 then do {
       d \<leftarrow> le (disc P) c;
       x \<leftarrow> le (disc_cursos d) i;
       Some (if x = 1 then 1 else 0) }
     else Some 0 }"

definition r6_sala :: "Problema \<Rightarrow> int list list \<Rightarrow> int \<Rightarrow> int \<Rightarrow> nat \<Rightarrow> int \<Rightarrow> int option" where
  "r6_sala P n per i j ok = do {
     m \<leftarrow> c_mod per (int (periodos_dia P));
     ok1 \<leftarrow> (if m < int (periodos_dia P) - 1 \<and> ok = 0
             then r6_vizinho P n (per + 1) (int j) i else Some ok);
     if m > 0 \<and> ok1 = 0 then r6_vizinho P n (per - 1) (int j) i else Some ok1 }"

text \<open>The body of the loop over the curricula \<open>i\<close> (lines 639 to 674), and the
  function.\<close>

definition r6_curso ::
  "Problema \<Rightarrow> int list list \<Rightarrow> int \<Rightarrow> int \<Rightarrow> int \<Rightarrow> nat \<Rightarrow> int \<times> Indices \<Rightarrow> (int \<times> Indices) option" where
  "r6_curso P n dis per sal i = (\<lambda>(penalidade, s). do {
     d \<leftarrow> le (disc P) dis;
     x \<leftarrow> le (disc_cursos d) (int i);
     if x = 1 then do {
       ok \<leftarrow> para (salas P) (r6_sala P n per (int i)) 0;
       if ok = 0 then do {
         v \<leftarrow> le (restricoes_violadas s) 6;
         rv \<leftarrow> esc (restricoes_violadas s) 6 (v + 1);
         a \<leftarrow> esc2 (aux_mov_r6 s) per sal dis;
         Some (penalidade + 2, s\<lparr>restricoes_violadas := rv, aux_mov_r6 := a\<rparr>) }
       else Some (penalidade, s) }
     else Some (penalidade, s) })"

definition restricaoR6 ::
  "Problema \<Rightarrow> int list list \<Rightarrow> Indices \<Rightarrow> int \<Rightarrow> int \<Rightarrow> int \<Rightarrow> (int \<times> Indices) option" where
  "restricaoR6 P n s dis per sal = para (cursos P) (r6_curso P n dis per sal) (0, s)"

subsection \<open>The objective function \<open>calcula_FO\<close>\<close>

text \<open>Lines 738 to 769: every index is reset; \<open>r9\<close> is overlaid with the occupancy
  of phase 1 when the phase uses it.\<close>

definition semeia_celula ::
  "Problema \<Rightarrow> int list list \<Rightarrow> nat \<Rightarrow> nat \<Rightarrow> int list list \<Rightarrow> int list list option" where
  "semeia_celula P ocupados i j m =
     (if int i < num_profs_da_integral P then do {
        x \<leftarrow> le2 ocupados (int i) (int j);
        esc2 m (int i) (int j) x }
      else Some m)"

definition semeia_r9 :: "Problema \<Rightarrow> int list list \<Rightarrow> int list list option" where
  "semeia_r9 P m =
     (case dias_ocupados_integral P of
        None \<Rightarrow> Some m
      | Some ocupados \<Rightarrow>
          if usar_restricao_integral P \<noteq> 0 then
            para (professores P) (\<lambda>i. para (dias P) (semeia_celula P ocupados i)) m
          else Some m)"

definition inicializa :: "Problema \<Rightarrow> Indices \<Rightarrow> Indices option" where
  "inicializa P s = do {
     a21 \<leftarrow> setMatriz (r21 s) (total_periodos P) (professores P) 0;
     a22 \<leftarrow> setMatriz (r22 s) (total_periodos P) (cursos P) 0;
     a5 \<leftarrow> setMatriz (r5 s) (disciplinas P) (dias P) 0;
     a9 \<leftarrow> setMatriz (r9 s) (professores P) (dias P) 0;
     b9 \<leftarrow> semeia_r9 P a9;
     a11 \<leftarrow> setMatriz (r11 s) (dias P) (disciplinas P) 0;
     m6 \<leftarrow> setMatriz (aux_mov_r6 s) (total_periodos P) (salas P) (-1);
     m7 \<leftarrow> setMatriz (aux_mov_r7 s) (disciplinas P) 2 (-1);
     m10 \<leftarrow> setMatriz (aux_mov_r10 s) (disciplinas P) 2 (-1);
     m11 \<leftarrow> setMatriz (aux_mov_r11 s) (total_periodos P) (salas P) (-1);
     m21 \<leftarrow> setVetor (aux_mov_r21 s) (disciplinas P) (-1);
     m22 \<leftarrow> setVetor (aux_mov_r22 s) (disciplinas P) (-1);
     m4 \<leftarrow> setVetor (aux_mov_r4 s) (disciplinas P) (-1);
     m5 \<leftarrow> setVetor (aux_mov_r5 s) (disciplinas P) (-1);
     m8 \<leftarrow> setVetor (aux_mov_r8 s) (total_periodos P) (-1);
     m9 \<leftarrow> setVetor (aux_mov_r9 s) (professores P) (-1);
     a1 \<leftarrow> setVetor (r1 s) (disciplinas P) 0;
     a8 \<leftarrow> setVetor (r8 s) (disciplinas P) (-1);
     rv \<leftarrow> setVetor (restricoes_violadas s) 12 (-1);
     b11 \<leftarrow> setMatriz a11 (dias P) (disciplinas P) 0;
     Some \<lparr>r1 = a1, r21 = a21, r22 = a22, r5 = a5, r8 = a8, r9 = b9, r11 = b11,
       restricoes_violadas = rv, aux_mov_r21 = m21, aux_mov_r22 = m22, aux_mov_r4 = m4,
       aux_mov_r5 = m5, aux_mov_r6 = m6, aux_mov_r7 = m7, aux_mov_r8 = m8,
       aux_mov_r9 = m9, aux_mov_r10 = m10, aux_mov_r11 = m11\<rparr> }"

text \<open>Lines 782 to 873, one definition for each constraint of the loop body. In all of
  them \<open>c\<close> is \<open>matriz.n[i][j]\<close>, known to differ from -1.\<close>

definition posicao :: "Problema \<Rightarrow> nat \<Rightarrow> nat \<Rightarrow> int" where
  "posicao P i j = (int j * int (total_periodos P)) + int i"

definition passo_r1 :: "int \<Rightarrow> Indices \<Rightarrow> Indices option" where
  "passo_r1 c s = do {
     x \<leftarrow> le (r1 s) c;
     v \<leftarrow> esc (r1 s) c (x + 1);
     Some (s\<lparr>r1 := v\<rparr>) }"

definition passo_r21 :: "Problema \<Rightarrow> nat \<Rightarrow> nat \<Rightarrow> int \<Rightarrow> Indices \<Rightarrow> Indices option" where
  "passo_r21 P i j c s = do {
     d \<leftarrow> le (disc P) c;
     x \<leftarrow> le2 (r21 s) (int i) (disc_prof d);
     m \<leftarrow> esc2 (r21 s) (int i) (disc_prof d) (x + 1);
     if x + 1 > 1 then do {
       a \<leftarrow> esc (aux_mov_r21 s) c (posicao P i j);
       Some (s\<lparr>r21 := m, aux_mov_r21 := a\<rparr>) }
     else Some (s\<lparr>r21 := m\<rparr>) }"

definition passo_r22_curso ::
  "Problema \<Rightarrow> nat \<Rightarrow> nat \<Rightarrow> int \<Rightarrow> nat \<Rightarrow> Indices \<Rightarrow> Indices option" where
  "passo_r22_curso P i j c k s = do {
     d \<leftarrow> le (disc P) c;
     x \<leftarrow> le (disc_cursos d) (int k);
     s1 \<leftarrow> (if x = 1 then do {
              y \<leftarrow> le2 (r22 s) (int i) (int k);
              m \<leftarrow> esc2 (r22 s) (int i) (int k) (y + 1);
              Some (s\<lparr>r22 := m\<rparr>) }
            else Some s);
     y \<leftarrow> le2 (r22 s1) (int i) (int k);
     if y > 1 then do {
       a \<leftarrow> esc (aux_mov_r22 s1) c (posicao P i j);
       Some (s1\<lparr>aux_mov_r22 := a\<rparr>) }
     else Some s1 }"

definition passo_r22 :: "Problema \<Rightarrow> nat \<Rightarrow> nat \<Rightarrow> int \<Rightarrow> Indices \<Rightarrow> Indices option" where
  "passo_r22 P i j c s = para (cursos P) (passo_r22_curso P i j c) s"

definition passo_r4 ::
  "Problema \<Rightarrow> nat \<Rightarrow> nat \<Rightarrow> int \<Rightarrow> int \<times> Indices \<Rightarrow> (int \<times> Indices) option" where
  "passo_r4 P i j c = (\<lambda>(fo, s). do {
     x \<leftarrow> restricaoR4 P c (int i);
     if x = 1 then do {
       a \<leftarrow> esc (aux_mov_r4 s) c (posicao P i j);
       v \<leftarrow> le (restricoes_violadas s) 4;
       rv \<leftarrow> esc (restricoes_violadas s) 4 (v + 1);
       Some (c_int (fo + 1000000), s\<lparr>aux_mov_r4 := a, restricoes_violadas := rv\<rparr>) }
     else Some (fo, s) })"

definition passo_r5 :: "Problema \<Rightarrow> nat \<Rightarrow> int \<Rightarrow> Indices \<Rightarrow> Indices option" where
  "passo_r5 P i c s = do {
     dia \<leftarrow> c_div (int i) (int (periodos_dia P));
     x \<leftarrow> le2 (r5 s) c dia;
     m \<leftarrow> esc2 (r5 s) c dia (x + 1);
     Some (s\<lparr>r5 := m\<rparr>) }"

definition passo_r7 ::
  "Problema \<Rightarrow> nat \<Rightarrow> nat \<Rightarrow> int \<Rightarrow> int \<times> Indices \<Rightarrow> (int \<times> Indices) option" where
  "passo_r7 P i j c = (\<lambda>(fo, s). do {
     d \<leftarrow> le (disc P) c;
     sl \<leftarrow> le (sala P) (int j);
     let sub_r7 = disc_alunos d - sala_capacidade sl in
     if sub_r7 > 0 then do {
       v \<leftarrow> le (restricoes_violadas s) 7;
       rv \<leftarrow> esc (restricoes_violadas s) 7 (v + sub_r7);
       e \<leftarrow> le2 (aux_mov_r7 s) c 0;
       a \<leftarrow> (if e < sub_r7 then do {
               a1 \<leftarrow> esc2 (aux_mov_r7 s) c 0 sub_r7;
               esc2 a1 c 1 (posicao P i j) }
             else Some (aux_mov_r7 s));
       Some (c_int (fo + sub_r7), s\<lparr>restricoes_violadas := rv, aux_mov_r7 := a\<rparr>) }
     else Some (fo, s) })"

definition passo_r8 ::
  "Problema \<Rightarrow> nat \<Rightarrow> nat \<Rightarrow> int \<Rightarrow> int \<times> Indices \<Rightarrow> (int \<times> Indices) option" where
  "passo_r8 P i j c = (\<lambda>(fo, s). do {
     x \<leftarrow> le (r8 s) c;
     if x = -1 then do {
       v \<leftarrow> esc (r8 s) c (int j);
       Some (fo, s\<lparr>r8 := v\<rparr>) }
     else if x \<noteq> int j then do {
       v \<leftarrow> le (restricoes_violadas s) 8;
       rv \<leftarrow> esc (restricoes_violadas s) 8 (v + 1);
       a \<leftarrow> (if v + 1 < int (total_periodos P)
             then esc (aux_mov_r8 s) (v + 1) (posicao P i j)
             else Some (aux_mov_r8 s));
       Some (c_int (fo + 1), s\<lparr>restricoes_violadas := rv, aux_mov_r8 := a\<rparr>) }
     else Some (fo, s) })"

definition passo_r9 :: "Problema \<Rightarrow> nat \<Rightarrow> int \<Rightarrow> Indices \<Rightarrow> Indices option" where
  "passo_r9 P i c s = do {
     d \<leftarrow> le (disc P) c;
     dia \<leftarrow> c_div (int i) (int (periodos_dia P));
     x \<leftarrow> le2 (r9 s) (disc_prof d) dia;
     if x < 1 then do {
       m \<leftarrow> esc2 (r9 s) (disc_prof d) dia 1;
       Some (s\<lparr>r9 := m\<rparr>) }
     else Some s }"

definition passo_r10 ::
  "Problema \<Rightarrow> nat \<Rightarrow> nat \<Rightarrow> int \<Rightarrow> int \<times> Indices \<Rightarrow> (int \<times> Indices) option" where
  "passo_r10 P i j c = (\<lambda>(fo, s). do {
     d \<leftarrow> le (disc P) c;
     sl \<leftarrow> le (sala P) (int j);
     if disc_tipo_sala d \<noteq> sala_tipo_sala sl then do {
       v \<leftarrow> le (restricoes_violadas s) 10;
       rv \<leftarrow> esc (restricoes_violadas s) 10 (v + 1);
       a1 \<leftarrow> esc2 (aux_mov_r10 s) c 0 (disc_tipo_sala d);
       a \<leftarrow> esc2 a1 c 1 (posicao P i j);
       Some (c_int (fo + 1000000), s\<lparr>restricoes_violadas := rv, aux_mov_r10 := a\<rparr>) }
     else Some (fo, s) })"

definition passo_r11 :: "Problema \<Rightarrow> nat \<Rightarrow> nat \<Rightarrow> int \<Rightarrow> Indices \<Rightarrow> Indices option" where
  "passo_r11 P i j c s = do {
     dia \<leftarrow> c_div (int i) (int (periodos_dia P));
     x \<leftarrow> le2 (r11 s) dia c;
     m \<leftarrow> esc2 (r11 s) dia c (x + 1);
     if x + 1 > 1 then do {
       a \<leftarrow> esc2 (aux_mov_r11 s) (int i) (int j) c;
       Some (s\<lparr>r11 := m, aux_mov_r11 := a\<rparr>) }
     else Some (s\<lparr>r11 := m\<rparr>) }"

text \<open>The body of the double loop of lines 775 to 876 for the cell \<open>(i, j)\<close>.\<close>

definition visita ::
  "Problema \<Rightarrow> int list list \<Rightarrow> nat \<Rightarrow> nat \<Rightarrow> int \<times> Indices \<Rightarrow> (int \<times> Indices) option" where
  "visita P n i j = (\<lambda>(fo, s). do {
     c \<leftarrow> le2 n (int i) (int j);
     if c \<noteq> -1 then do {
       s \<leftarrow> passo_r1 c s;
       s \<leftarrow> passo_r21 P i j c s;
       s \<leftarrow> passo_r22 P i j c s;
       (fo, s) \<leftarrow> passo_r4 P i j c (fo, s);
       s \<leftarrow> passo_r5 P i c s;
       (penalidade, s) \<leftarrow> restricaoR6 P n s c (int i) (int j);
       (fo, s) \<leftarrow> passo_r7 P i j c (c_int (fo + penalidade), s);
       (fo, s) \<leftarrow> passo_r8 P i j c (fo, s);
       s \<leftarrow> passo_r9 P i c s;
       (fo, s) \<leftarrow> passo_r10 P i j c (fo, s);
       s \<leftarrow> passo_r11 P i j c s;
       Some (fo, s) }
     else Some (fo, s) })"

definition percorre :: "Problema \<Rightarrow> int list list \<Rightarrow> int \<times> Indices \<Rightarrow> (int \<times> Indices) option" where
  "percorre P n = para (total_periodos P) (\<lambda>i. para (salas P) (\<lambda>j. visita P n i j))"

text \<open>Lines 885 to 908: the conflicts of teachers and of curricula, with the counter
  \<open>restricoes_violadas[2]\<close> that adds 1 for a teacher and 1000 for a curriculum.\<close>

definition conflito_r2 :: "int \<Rightarrow> int \<Rightarrow> int \<times> Indices \<Rightarrow> (int \<times> Indices) option" where
  "conflito_r2 x peso = (\<lambda>(fo, s).
     if x > 1 then do {
       v \<leftarrow> le (restricoes_violadas s) 2;
       rv \<leftarrow> esc (restricoes_violadas s) 2 (if v < 0 then peso else v + peso);
       Some (c_int (fo + c_int (1000000 * (x - 1))), s\<lparr>restricoes_violadas := rv\<rparr>) }
     else Some (fo, s))"

definition pos_r21 :: "nat \<Rightarrow> nat \<Rightarrow> int \<times> Indices \<Rightarrow> (int \<times> Indices) option" where
  "pos_r21 i j a = do {
     x \<leftarrow> le2 (r21 (snd a)) (int i) (int j);
     conflito_r2 x 1 a }"

definition pos_r22 :: "nat \<Rightarrow> nat \<Rightarrow> int \<times> Indices \<Rightarrow> (int \<times> Indices) option" where
  "pos_r22 i j a = do {
     x \<leftarrow> le2 (r22 (snd a)) (int i) (int j);
     conflito_r2 x 1000 a }"

definition pos_r2_periodo :: "Problema \<Rightarrow> nat \<Rightarrow> int \<times> Indices \<Rightarrow> (int \<times> Indices) option" where
  "pos_r2_periodo P i a = do {
     a1 \<leftarrow> para (professores P) (pos_r21 i) a;
     para (cursos P) (pos_r22 i) a1 }"

definition pos_r2 :: "Problema \<Rightarrow> int \<times> Indices \<Rightarrow> (int \<times> Indices) option" where
  "pos_r2 P = para (total_periodos P) (pos_r2_periodo P)"

text \<open>Lines 913 to 931: lectures placed against lectures required (R1) and days used
  against \<open>minDias\<close> (R5).\<close>

definition conta_dia :: "int list list \<Rightarrow> nat \<Rightarrow> nat \<Rightarrow> int \<Rightarrow> int option" where
  "conta_dia m i j a = do {
     y \<leftarrow> le2 m (int i) (int j);
     Some (if y > 0 then a + 1 else a) }"

definition conta_dias :: "int list list \<Rightarrow> nat \<Rightarrow> nat \<Rightarrow> int option" where
  "conta_dias m i nd = para nd (conta_dia m i) 0"

definition pos_r1_r5_disc :: "Problema \<Rightarrow> nat \<Rightarrow> int \<times> Indices \<Rightarrow> (int \<times> Indices) option" where
  "pos_r1_r5_disc P i = (\<lambda>(fo, s). do {
     x \<leftarrow> le (r1 s) (int i);
     d \<leftarrow> le (disc P) (int i);
     let fo1 = (if x \<noteq> disc_aulas d
                then c_int (fo + c_int (1000000 * modulo x (disc_aulas d))) else fo) in do {
     r5_aux \<leftarrow> conta_dias (r5 s) i (dias P);
     if r5_aux < disc_minDias d then do {
       v \<leftarrow> le (restricoes_violadas s) 5;
       rv \<leftarrow> esc (restricoes_violadas s) 5 (v + r5_aux);
       a \<leftarrow> esc (aux_mov_r5 s) (int i) r5_aux;
       Some (c_int (fo1 + c_int (5 * (disc_minDias d - r5_aux))),
             s\<lparr>restricoes_violadas := rv, aux_mov_r5 := a\<rparr>) }
     else Some (fo1, s) } })"

definition pos_r1_r5 :: "Problema \<Rightarrow> int \<times> Indices \<Rightarrow> (int \<times> Indices) option" where
  "pos_r1_r5 P = para (disciplinas P) (pos_r1_r5_disc P)"

text \<open>Lines 934 to 947: days on which each teacher teaches (R9).\<close>

definition pos_r9_prof :: "Problema \<Rightarrow> nat \<Rightarrow> int \<times> Indices \<Rightarrow> (int \<times> Indices) option" where
  "pos_r9_prof P i = (\<lambda>(fo, s). do {
     dias_com_aula \<leftarrow> conta_dias (r9 s) i (dias P);
     if dias_com_aula > 2 then do {
       v \<leftarrow> le (restricoes_violadas s) 9;
       rv \<leftarrow> esc (restricoes_violadas s) 9 (v + (dias_com_aula - 2));
       a \<leftarrow> esc (aux_mov_r9 s) (int i) dias_com_aula;
       Some (c_int (fo + c_int (5 * (dias_com_aula - 2))),
             s\<lparr>restricoes_violadas := rv, aux_mov_r9 := a\<rparr>) }
     else Some (fo, s) })"

definition pos_r9 :: "Problema \<Rightarrow> int \<times> Indices \<Rightarrow> (int \<times> Indices) option" where
  "pos_r9 P = para (professores P) (pos_r9_prof P)"

text \<open>Lines 952 to 960: a course more than once on a day (R11).\<close>

definition pos_r11_disc :: "nat \<Rightarrow> nat \<Rightarrow> int \<times> Indices \<Rightarrow> (int \<times> Indices) option" where
  "pos_r11_disc i j = (\<lambda>(fo, s). do {
     x \<leftarrow> le2 (r11 s) (int i) (int j);
     if x > 1 then do {
       v \<leftarrow> le (restricoes_violadas s) 11;
       rv \<leftarrow> esc (restricoes_violadas s) 11 (v + (x - 1));
       Some (c_int (fo + c_int (1000000 * (x - 1))), s\<lparr>restricoes_violadas := rv\<rparr>) }
     else Some (fo, s) })"

definition pos_r11 :: "Problema \<Rightarrow> int \<times> Indices \<Rightarrow> (int \<times> Indices) option" where
  "pos_r11 P = para (dias P) (\<lambda>i. para (disciplinas P) (pos_r11_disc i))"

text \<open>\<open>calcula_FO\<close> takes the grid \<open>matriz.n\<close> and returns \<open>fo\<close> with the indices it
  leaves behind.\<close>

definition calcula_FO :: "Problema \<Rightarrow> Indices \<Rightarrow> int list list \<Rightarrow> (int \<times> Indices) option" where
  "calcula_FO P s n = do {
     s0 \<leftarrow> inicializa P s;
     a \<leftarrow> percorre P n (0, s0);
     a \<leftarrow> pos_r2 P a;
     a \<leftarrow> pos_r1_r5 P a;
     a \<leftarrow> pos_r9 P a;
     pos_r11 P a }"

subsection \<open>Random numbers\<close>

text \<open>The program draws its random numbers from \<open>rand()\<close>. The model takes the
  values \<open>rand()\<close> returns, which are of type \<open>int\<close>, as a list and every draw
  consumes its head; a function that needs a draw from the empty list returns \<open>None\<close>,
  so the list also bounds the loops that draw until some test holds.

  \<open>randomDouble\<close> (lines 245 to 250) and \<open>randomInt\<close> (lines 256 to 259) compute in
  \<open>double\<close>. \<open>duplo x\<close> is the \<open>double\<close> nearest to the rational \<open>x\<close>, ties to the
  even significand (IEEE 754 binary64, for the normal numbers, which are all that
  occur here): with \<open>2 ^ e \<le> \<bar>x\<bar> < 2 ^ (e + 1)\<close> the significand is \<open>\<bar>x\<bar> / 2 ^ (e - 52)\<close>
  rounded to an integer by \<open>meio_par\<close>. Every operation of the source is rounded once,
  and the cast to \<open>int\<close> truncates towards zero.\<close>

definition meio_par :: "int \<Rightarrow> int \<Rightarrow> int" where
  "meio_par p d =
     (let q = p div d; r = p mod d
      in if 2 * r < d then q else if d < 2 * r then q + 1 else if even q then q else q + 1)"

definition duplo :: "rat \<Rightarrow> rat" where
  "duplo x =
     (if x = 0 then 0
      else (case quotient_of \<bar>x\<bar> of (p, d) \<Rightarrow>
        let L = bitlen p - bitlen d;
            e = (if d * 2 ^ nat L \<le> p * 2 ^ nat (- L) then L else L - 1);
            m = meio_par (p * 2 ^ nat (52 - e)) (d * 2 ^ nat (e - 52))
        in sgn x * of_int m * 2 ^ nat (e - 52) / 2 ^ nat (52 - e)))"

definition trunca :: "rat \<Rightarrow> int" where
  "trunca x = (if 0 \<le> x then \<lfloor>x\<rfloor> else - \<lfloor>- x\<rfloor>)"

definition randomDouble :: "rat \<Rightarrow> rat \<Rightarrow> int \<Rightarrow> rat" where
  "randomDouble inicio fim r =
     duplo (duplo (duplo (of_int (resto r 10000) / 10000) * duplo (fim - inicio)) + inicio)"

definition randomInt :: "int \<Rightarrow> int \<Rightarrow> int \<Rightarrow> int" where
  "randomInt inicio fim r = trunca (randomDouble 0 (duplo (of_int (fim - inicio) + 1)) r) + inicio"

subsection \<open>The neighbourhood \<open>geraViz\<close>\<close>

text \<open>The three ways in which the source moves lectures. \<open>troca\<close> is
  \<^verbatim>\<open>aux2 = n[i][j]; n[i][j] = n[k][l]; n[k][l] = aux2;\<close>, \<open>muda\<close> is
  \<^verbatim>\<open>aux2 = n[per][sal]; n[per][sal] = -1; n[k][l] = aux2;\<close> and \<open>leva\<close> is
  \<^verbatim>\<open>n[k][l] = n[per][sal]; n[per][sal] = -1;\<close>.\<close>

definition troca :: "int list list \<Rightarrow> int \<Rightarrow> int \<Rightarrow> int \<Rightarrow> int \<Rightarrow> int list list option" where
  "troca n i j k l = do {
     aux2 \<leftarrow> le2 n i j;
     x \<leftarrow> le2 n k l;
     n1 \<leftarrow> esc2 n i j x;
     esc2 n1 k l aux2 }"

definition muda :: "int list list \<Rightarrow> int \<Rightarrow> int \<Rightarrow> int \<Rightarrow> int \<Rightarrow> int list list option" where
  "muda n per sal k l = do {
     aux2 \<leftarrow> le2 n per sal;
     n1 \<leftarrow> esc2 n per sal (-1);
     esc2 n1 k l aux2 }"

definition leva :: "int list list \<Rightarrow> int \<Rightarrow> int \<Rightarrow> int \<Rightarrow> int \<Rightarrow> int list list option" where
  "leva n per sal k l = do {
     x \<leftarrow> le2 n per sal;
     n1 \<leftarrow> esc2 n k l x;
     esc2 n1 per sal (-1) }"

text \<open>Lines 1039 to 1043; \<open>T\<close> is the temperature, a \<open>float\<close> of the source.\<close>

definition tentativas :: "real \<Rightarrow> int" where
  "tentativas T =
     (if T < 1 then 6 else if T < 10 then 5 else if T < 100 then 4 else if T < 1000 then 3 else 2)"

text \<open>The random swaps: anywhere (lines 1091 to 1102, 1147 to 1158 and 1574 to 1585),
  within a period (lines 1536 to 1546) and within a room (lines 1555 to 1565). \<open>aux\<close>
  counts the swaps still to do.\<close>

fun trocas_livres :: "Problema \<Rightarrow> int \<Rightarrow> int list list \<Rightarrow> int list \<Rightarrow> (int list list \<times> int list) option" where
  "trocas_livres P aux n rs =
     (if aux > 0 then
        (case rs of
           v1 # v2 # v3 # v4 # rs' \<Rightarrow>
             (let i = randomInt 0 (int (total_periodos P) - 1) v1;
                  j = randomInt 0 (int (salas P) - 1) v2;
                  k = randomInt 0 (int (total_periodos P) - 1) v3;
                  l = randomInt 0 (int (salas P) - 1) v4
              in do {
                x \<leftarrow> le2 n i j;
                y \<leftarrow> le2 n k l;
                if x \<noteq> -1 \<or> y \<noteq> -1 then do {
                  n' \<leftarrow> troca n i j k l;
                  trocas_livres P (aux - 1) n' rs' }
                else trocas_livres P aux n rs' })
         | _ \<Rightarrow> None)
      else Some (n, rs))"

fun trocas_periodo :: "Problema \<Rightarrow> int \<Rightarrow> int list list \<Rightarrow> int list \<Rightarrow> (int list list \<times> int list) option" where
  "trocas_periodo P aux n rs =
     (if aux > 0 then
        (case rs of
           v1 # v2 # v3 # rs' \<Rightarrow>
             (let i = randomInt 0 (int (total_periodos P) - 1) v1;
                  j = randomInt 0 (int (salas P) - 1) v2;
                  l = randomInt 0 (int (salas P) - 1) v3
              in do {
                x \<leftarrow> le2 n i j;
                y \<leftarrow> le2 n i l;
                if x \<noteq> -1 \<or> y \<noteq> -1 then do {
                  n' \<leftarrow> troca n i j i l;
                  trocas_periodo P (aux - 1) n' rs' }
                else trocas_periodo P aux n rs' })
         | _ \<Rightarrow> None)
      else Some (n, rs))"

fun trocas_sala :: "Problema \<Rightarrow> int \<Rightarrow> int list list \<Rightarrow> int list \<Rightarrow> (int list list \<times> int list) option" where
  "trocas_sala P aux n rs =
     (if aux > 0 then
        (case rs of
           v1 # v2 # v3 # rs' \<Rightarrow>
             (let i = randomInt 0 (int (total_periodos P) - 1) v1;
                  j = randomInt 0 (int (salas P) - 1) v2;
                  k = randomInt 0 (int (total_periodos P) - 1) v3
              in do {
                x \<leftarrow> le2 n i j;
                y \<leftarrow> le2 n k j;
                if x \<noteq> -1 \<or> y \<noteq> -1 then do {
                  n' \<leftarrow> troca n i j k j;
                  trocas_sala P (aux - 1) n' rs' }
                else trocas_sala P aux n rs' })
         | _ \<Rightarrow> None)
      else Some (n, rs))"

text \<open>The random swaps that begin with the draw of their number.\<close>

definition mov_aleatorio :: "Problema \<Rightarrow> real \<Rightarrow> int list list \<Rightarrow> int list \<Rightarrow> (int list list \<times> int list) option" where
  "mov_aleatorio P T n rs =
     (case rs of
        r # rs' \<Rightarrow> trocas_livres P (randomInt 1 (tentativas T) r) n rs'
      | [] \<Rightarrow> None)"

definition mov_periodo :: "Problema \<Rightarrow> real \<Rightarrow> int list list \<Rightarrow> int list \<Rightarrow> (int list list \<times> int list) option" where
  "mov_periodo P T n rs =
     (case rs of
        r # rs' \<Rightarrow> trocas_periodo P (randomInt 1 (tentativas T * 2) r) n rs'
      | [] \<Rightarrow> None)"

definition mov_sala :: "Problema \<Rightarrow> real \<Rightarrow> int list list \<Rightarrow> int list \<Rightarrow> (int list list \<times> int list) option" where
  "mov_sala P T n rs =
     (case rs of
        r # rs' \<Rightarrow> trocas_sala P (randomInt 1 (tentativas T * 2) r) n rs'
      | [] \<Rightarrow> None)"

text \<open>The search for a witness in a vector (lines 1058 to 1065, 1114 to 1121, 1234 to
  1241 and 1417 to 1424): a random subscript \<open>j\<close>, else the running subscript \<open>i\<close>.
  \<open>v\<close> reads the entry.\<close>

fun escolhe :: "(int \<Rightarrow> int option) \<Rightarrow> Problema \<Rightarrow> int \<Rightarrow> int list \<Rightarrow> (int \<times> int list) option" where
  "escolhe v P i [] = None"
| "escolhe v P i (r # rs) =
     (let j = randomInt 0 (int (disciplinas P) - 1) r
      in do {
        x \<leftarrow> v j;
        if x \<noteq> -1 then Some (j, rs)
        else do {
          y \<leftarrow> v i;
          if y \<noteq> -1 then Some (i, rs) else escolhe v P (i + 1) rs } })"

text \<open>The decoding of a witness \<open>sala * total_periodos + periodo\<close>.\<close>

definition decodifica :: "Problema \<Rightarrow> int \<Rightarrow> (int \<times> int) option" where
  "decodifica P w = do {
     sal \<leftarrow> c_div w (int (total_periodos P));
     Some (w - sal * int (total_periodos P), sal) }"

text \<open>Class 1, a conflict of a teacher (lines 1054 to 1104). \<open>destino_r21\<close> is the loop
  that draws the target \<open>(k, l)\<close>; it ends when \<open>aux2\<close> is no longer -2.\<close>

fun destino_r21 ::
  "Problema \<Rightarrow> Indices \<Rightarrow> int \<Rightarrow> int \<Rightarrow> int list list \<Rightarrow> int list \<Rightarrow> (int list list \<times> int list) option" where
  "destino_r21 P s per sal n (v1 # v2 # rs) =
     (let k = randomInt 0 (int (total_periodos P) - 1) v1;
          l = randomInt 0 (int (salas P) - 1) v2
      in do {
        x \<leftarrow> le2 n k l;
        if x = -1 then do {
          aux2 \<leftarrow> le2 n per sal;
          n' \<leftarrow> muda n per sal k l;
          if aux2 = -2 then destino_r21 P s per sal n' rs else Some (n', rs) }
        else do {
          d \<leftarrow> le (disc P) x;
          y \<leftarrow> le2 (r21 s) k (disc_prof d);
          if y = 0 then do {
            n' \<leftarrow> troca n k l per sal;
            if x = -2 then destino_r21 P s per sal n' rs else Some (n', rs) }
          else destino_r21 P s per sal n rs } })"
| "destino_r21 P s per sal n _ = None"

definition mov_r21 ::
  "Problema \<Rightarrow> real \<Rightarrow> Indices \<Rightarrow> int list list \<Rightarrow> int list \<Rightarrow> (int list list \<times> Indices \<times> int list) option" where
  "mov_r21 P T s n rs = do {
     v \<leftarrow> le (restricoes_violadas s) 2;
     if resto v 1000 > 1 then do {
       (aux, rs1) \<leftarrow> escolhe (le (aux_mov_r21 s)) P 0 rs;
       w \<leftarrow> le (aux_mov_r21 s) aux;
       (per, sal) \<leftarrow> decodifica P w;
       (n', rs2) \<leftarrow> destino_r21 P s per sal n rs1;
       a \<leftarrow> esc (aux_mov_r21 s) aux (-1);
       rv \<leftarrow> esc (restricoes_violadas s) 2 (v - 1);
       Some (n', s\<lparr>aux_mov_r21 := a, restricoes_violadas := rv\<rparr>, rs2) }
     else do {
       (n', rs') \<leftarrow> mov_aleatorio P T n rs;
       Some (n', s, rs') } }"

text \<open>Class 2, a conflict of a curriculum (lines 1110 to 1160).\<close>

fun destino_r22 ::
  "Problema \<Rightarrow> int \<Rightarrow> int \<Rightarrow> int list list \<Rightarrow> int list \<Rightarrow> (int list list \<times> int list) option" where
  "destino_r22 P per sal n (v1 # v2 # rs) =
     (let k = randomInt 0 (int (total_periodos P) - 1) v1;
          l = randomInt 0 (int (salas P) - 1) v2
      in do {
        x \<leftarrow> le2 n k l;
        if x = -1 then do {
          aux2 \<leftarrow> le2 n per sal;
          n' \<leftarrow> muda n per sal k l;
          if aux2 = -2 then destino_r22 P per sal n' rs else Some (n', rs) }
        else if k \<noteq> per then do {
          n' \<leftarrow> troca n k l per sal;
          if x = -2 then destino_r22 P per sal n' rs else Some (n', rs) }
        else destino_r22 P per sal n rs })"
| "destino_r22 P per sal n _ = None"

definition mov_r22 ::
  "Problema \<Rightarrow> real \<Rightarrow> Indices \<Rightarrow> int list list \<Rightarrow> int list \<Rightarrow> (int list list \<times> Indices \<times> int list) option" where
  "mov_r22 P T s n rs = do {
     v \<leftarrow> le (restricoes_violadas s) 2;
     if v > 1000 then do {
       (aux, rs1) \<leftarrow> escolhe (le (aux_mov_r22 s)) P 0 rs;
       w \<leftarrow> le (aux_mov_r22 s) aux;
       (per, sal) \<leftarrow> decodifica P w;
       (n', rs2) \<leftarrow> destino_r22 P per sal n rs1;
       a \<leftarrow> esc (aux_mov_r22 s) aux (-1);
       rv \<leftarrow> esc (restricoes_violadas s) 2 (v - 1000);
       Some (n', s\<lparr>aux_mov_r22 := a, restricoes_violadas := rv\<rparr>, rs2) }
     else do {
       (n', rs') \<leftarrow> mov_aleatorio P T n rs;
       Some (n', s, rs') } }"

text \<open>Class 3, an isolated lecture (lines 1166 to 1223). \<open>escolhe_r6\<close> looks for a
  witness at a random cell, else at the running cell \<open>(k, l)\<close>; \<open>destino_r6\<close> draws
  the target and carries the grid and \<open>aux_mov_r6\<close>, which it also writes.\<close>

fun escolhe_r6 ::
  "Problema \<Rightarrow> int list list \<Rightarrow> int \<Rightarrow> int \<Rightarrow> int list \<Rightarrow> (int \<times> int \<times> int list) option" where
  "escolhe_r6 P m k l (v1 # v2 # rs) =
     (let i = randomInt 0 (int (total_periodos P) - 1) v1;
          j = randomInt 0 (int (salas P) - 1) v2
      in do {
        x \<leftarrow> le2 m i j;
        (aux, r6_i, r6_j) \<leftarrow>
          (if x \<noteq> -1 then Some (x, i, j)
           else do {
             y \<leftarrow> le2 m k l;
             Some (if y \<noteq> -1 then (y, k, l) else (-2, k, l)) });
        l' \<leftarrow> c_mod (l + 1) (int (salas P));
        k' \<leftarrow> (if l' = 0 then c_mod (k + 1) (int (total_periodos P)) else Some k);
        if aux = -2 then escolhe_r6 P m k' l' rs else Some (r6_i, r6_j, rs) })"
| "escolhe_r6 P m k l _ = None"

fun destino_r6 ::
  "Problema \<Rightarrow> int \<Rightarrow> int \<Rightarrow> int \<Rightarrow> int list list \<Rightarrow> int list list \<Rightarrow> int \<Rightarrow> int list \<Rightarrow>
     (int list list \<times> int list list \<times> int list) option" where
  "destino_r6 P tent r6_i r6_j n m aux3 (v1 # v2 # rs) =
     (let k = randomInt 0 (int (total_periodos P) - 1) v1;
          l = randomInt 0 (int (salas P) - 1) v2
      in do {
        x \<leftarrow> le2 n k l;
        if x = -1 \<and> r6_i \<noteq> k then do {
          n' \<leftarrow> leva n r6_i r6_j k l;
          Some (n', m, rs) }
        else do {
          y \<leftarrow> le2 m k l;
          if y \<noteq> -1 \<and> r6_i \<noteq> k then do {
            n' \<leftarrow> troca n k l r6_i r6_j;
            m' \<leftarrow> esc2 m k l (-1);
            if x = -2 then destino_r6 P tent r6_i r6_j n' m' (aux3 + 1) rs else Some (n', m', rs) }
          else if aux3 \<ge> tent \<and> r6_i \<noteq> k then do {
            n' \<leftarrow> troca n k l r6_i r6_j;
            m' \<leftarrow> esc2 m k l (-1);
            if x = -2 then destino_r6 P tent r6_i r6_j n' m' (aux3 + 1) rs else Some (n', m', rs) }
          else if aux3 \<ge> tent then do {
            aux2 \<leftarrow> le2 n r6_i r6_j;
            n' \<leftarrow> troca n r6_i r6_j k l;
            if aux2 = -2 then destino_r6 P tent r6_i r6_j n' m (aux3 + 1) rs else Some (n', m, rs) }
          else destino_r6 P tent r6_i r6_j n m (aux3 + 1) rs } })"
| "destino_r6 P tent r6_i r6_j n m aux3 _ = None"

definition mov_r6 ::
  "Problema \<Rightarrow> real \<Rightarrow> Indices \<Rightarrow> int list list \<Rightarrow> int list \<Rightarrow> (int list list \<times> Indices \<times> int list) option" where
  "mov_r6 P T s n rs = do {
     (r6_i, r6_j, rs1) \<leftarrow> escolhe_r6 P (aux_mov_r6 s) 0 0 rs;
     (n', m, rs2) \<leftarrow> destino_r6 P (tentativas T) r6_i r6_j n (aux_mov_r6 s) 0 rs1;
     v \<leftarrow> le (restricoes_violadas s) 6;
     rv \<leftarrow> esc (restricoes_violadas s) 6 (v - 2);
     m' \<leftarrow> esc2 m r6_i r6_j (-1);
     Some (n', s\<lparr>restricoes_violadas := rv, aux_mov_r6 := m'\<rparr>, rs2) }"

text \<open>Class 4, a room that is too small (lines 1229 to 1285). \<open>aux\<close> is the course of
  the witness. \<open>melhora_r7\<close> is the test of the second and third branches, which both
  swap with an occupied target; the last two branches of the source both swap once
  \<open>aux3\<close> has reached \<open>tentativas\<close>, the first of them after reading \<open>sala[sal]\<close>.\<close>

definition melhora_r7 :: "Problema \<Rightarrow> Indices \<Rightarrow> int \<Rightarrow> Sala \<Rightarrow> Disciplina \<Rightarrow> int \<Rightarrow> bool option" where
  "melhora_r7 P s aux sl da x =
     (if x \<noteq> -1 then do {
        dx \<leftarrow> le (disc P) x;
        c2 \<leftarrow> (if sala_capacidade sl \<ge> disc_alunos da then do {
                 e \<leftarrow> le2 (aux_mov_r7 s) aux 0;
                 Some (disc_alunos dx - sala_capacidade sl > e) }
               else Some False);
        Some (c2 \<or> disc_alunos dx > sala_capacidade sl) }
      else Some False)"

fun destino_r7 ::
  "Problema \<Rightarrow> Indices \<Rightarrow> int \<Rightarrow> int \<Rightarrow> int \<Rightarrow> int \<Rightarrow> int list list \<Rightarrow> int \<Rightarrow> int list \<Rightarrow>
     (int list list \<times> int list) option" where
  "destino_r7 P s tent aux per sal n aux3 (v1 # v2 # rs) =
     (let k = randomInt 0 (int (total_periodos P) - 1) v1;
          l = randomInt 0 (int (salas P) - 1) v2
      in do {
        x \<leftarrow> le2 n k l;
        sl \<leftarrow> le (sala P) l;
        da \<leftarrow> le (disc P) aux;
        if x = -1 \<and> sala_capacidade sl \<ge> disc_alunos da then do {
          aux2 \<leftarrow> le2 n per sal;
          n' \<leftarrow> muda n per sal k l;
          if aux2 = -2 then destino_r7 P s tent aux per sal n' (aux3 + 1) rs else Some (n', rs) }
        else do {
          b \<leftarrow> melhora_r7 P s aux sl da x;
          if b then do {
            aux2 \<leftarrow> le2 n per sal;
            n' \<leftarrow> troca n per sal k l;
            if aux2 = -2 then destino_r7 P s tent aux per sal n' (aux3 + 1) rs else Some (n', rs) }
          else if aux3 \<ge> tent then do {
            ss \<leftarrow> le (sala P) sal;
            aux2 \<leftarrow> le2 n per sal;
            n' \<leftarrow> troca n per sal k l;
            if aux2 = -2 then destino_r7 P s tent aux per sal n' (aux3 + 1) rs else Some (n', rs) }
          else destino_r7 P s tent aux per sal n (aux3 + 1) rs } })"
| "destino_r7 P s tent aux per sal n aux3 _ = None"

definition mov_r7 ::
  "Problema \<Rightarrow> real \<Rightarrow> Indices \<Rightarrow> int list list \<Rightarrow> int list \<Rightarrow> (int list list \<times> Indices \<times> int list) option" where
  "mov_r7 P T s n rs = do {
     (aux, rs1) \<leftarrow> escolhe (\<lambda>j. le2 (aux_mov_r7 s) j 0) P 0 rs;
     w \<leftarrow> le2 (aux_mov_r7 s) aux 1;
     (per, sal) \<leftarrow> decodifica P w;
     (n', rs2) \<leftarrow> destino_r7 P s (tentativas T) aux per sal n 0 rs1;
     v \<leftarrow> le (restricoes_violadas s) 7;
     rv \<leftarrow> esc (restricoes_violadas s) 7 (v - 1);
     m1 \<leftarrow> esc2 (aux_mov_r7 s) aux 0 (-1);
     m \<leftarrow> esc2 m1 aux 1 (-1);
     Some (n', s\<lparr>restricoes_violadas := rv, aux_mov_r7 := m\<rparr>, rs2) }"

text \<open>Class 5, a course in a second room (lines 1291 to 1320). The last statement of
  the source writes \<open>r8[aux]\<close>, where \<open>aux\<close> is the subscript of the witness in
  \<open>aux_mov_r8\<close>.\<close>

fun destino_r8 ::
  "Problema \<Rightarrow> Indices \<Rightarrow> int \<Rightarrow> int \<Rightarrow> int \<Rightarrow> int list list \<Rightarrow> int \<Rightarrow> int list \<Rightarrow>
     (int list list \<times> int list) option" where
  "destino_r8 P s tent per sal n aux3 (v1 # rs) =
     (let i = randomInt 0 (int (total_periodos P) - 1) v1
      in do {
        c \<leftarrow> le2 n per sal;
        j \<leftarrow> le (r8 s) c;
        x \<leftarrow> le2 n i j;
        if x = -1 then do {
          n' \<leftarrow> leva n per sal i j;
          Some (n', rs) }
        else if aux3 \<ge> tent then do {
          n' \<leftarrow> troca n per sal i j;
          if c = -2 then destino_r8 P s tent per sal n' (aux3 + 1) rs else Some (n', rs) }
        else destino_r8 P s tent per sal n (aux3 + 1) rs })"
| "destino_r8 P s tent per sal n aux3 [] = None"

definition mov_r8 ::
  "Problema \<Rightarrow> real \<Rightarrow> Indices \<Rightarrow> int list list \<Rightarrow> int list \<Rightarrow> (int list list \<times> Indices \<times> int list) option" where
  "mov_r8 P T s n rs =
     (case rs of
        [] \<Rightarrow> None
      | r # rs1 \<Rightarrow> do {
          v \<leftarrow> le (restricoes_violadas s) 8;
          let aux = (if v \<ge> int (total_periodos P)
                     then randomInt 0 (int (total_periodos P) - 1) r else randomInt 0 v r) in do {
          w \<leftarrow> le (aux_mov_r8 s) aux;
          (per, sal) \<leftarrow> decodifica P w;
          (n', rs2) \<leftarrow> destino_r8 P s (tentativas T) per sal n 0 rs1;
          rv \<leftarrow> esc (restricoes_violadas s) 8 (v - 1);
          a \<leftarrow> esc (r8 s) aux (-1);
          Some (n', s\<lparr>restricoes_violadas := rv, r8 := a\<rparr>, rs2) } })"

text \<open>Class 6, a teacher on more than two days (lines 1326 to 1405). \<open>procura_prof\<close>
  tries up to 100 random teachers; \<open>dias_trabalhados\<close> is the local array of 10 days;
  \<open>procura_aula\<close> is the double loop that stops at the first lecture of the teacher
  on the source day; \<open>destino_r9\<close> gives up after \<open>2 * tentativas\<close> draws. The class
  writes nothing but the grid.\<close>

fun procura_prof :: "Problema \<Rightarrow> Indices \<Rightarrow> nat \<Rightarrow> int list \<Rightarrow> (int \<times> int list) option" where
  "procura_prof P s 0 rs = Some (-1, rs)"
| "procura_prof P s (Suc restam) [] = None"
| "procura_prof P s (Suc restam) (r # rs) =
     (let i = randomInt 0 (int (professores P) - 1) r
      in do {
        x \<leftarrow> le (aux_mov_r9 s) i;
        if x > 2 then Some (i, rs) else procura_prof P s restam rs })"

definition dias_trabalhados :: "Problema \<Rightarrow> Indices \<Rightarrow> int \<Rightarrow> int list option" where
  "dias_trabalhados P s prof_violador =
     para (dias P) (\<lambda>d ds. do {
       x \<leftarrow> le2 (r9 s) prof_violador (int d);
       if x = 1 then (if length ds < 10 then Some (ds @ [int d]) else None) else Some ds }) []"

fun outro_dia :: "int list \<Rightarrow> int \<Rightarrow> int \<Rightarrow> int list \<Rightarrow> (int \<times> int list) option" where
  "outro_dia ds dia_fonte dia_destino rs =
     (if dia_destino = dia_fonte \<and> length ds > 1 then
        (case rs of
           [] \<Rightarrow> None
         | r # rs' \<Rightarrow> do {
             d \<leftarrow> le ds (randomInt 0 (int (length ds) - 1) r);
             outro_dia ds dia_fonte d rs' })
      else Some (dia_destino, rs))"

fun procura_aula ::
  "Problema \<Rightarrow> int \<Rightarrow> int list list \<Rightarrow> (int \<times> int) list \<Rightarrow> (int \<times> int) option option" where
  "procura_aula P prof_violador n [] = Some None"
| "procura_aula P prof_violador n ((per, sal) # ps) = do {
     c \<leftarrow> le2 n per sal;
     if c \<noteq> -1 then do {
       d \<leftarrow> le (disc P) c;
       if disc_prof d = prof_violador then Some (Some (per, sal))
       else procura_aula P prof_violador n ps }
     else procura_aula P prof_violador n ps }"

fun destino_r9 ::
  "Problema \<Rightarrow> Indices \<Rightarrow> int \<Rightarrow> int \<Rightarrow> int \<Rightarrow> int \<Rightarrow> int list list \<Rightarrow> int \<Rightarrow> int list \<Rightarrow>
     (int list list \<times> int list) option" where
  "destino_r9 P s tent dia_destino per_fonte sala_fonte n aux3 rs =
     (if aux3 < tent * 2 then
        (case rs of
           v1 # v2 # rs' \<Rightarrow>
             (let k = randomInt (dia_destino * int (periodos_dia P))
                        ((dia_destino + 1) * int (periodos_dia P) - 1) v1;
                  l = randomInt 0 (int (salas P) - 1) v2
              in do {
                x \<leftarrow> le2 n k l;
                if x = -1 then do {
                  n' \<leftarrow> leva n per_fonte sala_fonte k l;
                  Some (n', rs') }
                else do {
                  d \<leftarrow> le (disc P) x;
                  y \<leftarrow> le (aux_mov_r9 s) (disc_prof d);
                  if y \<le> 2 \<or> aux3 \<ge> tent then do {
                    n' \<leftarrow> troca n k l per_fonte sala_fonte;
                    if x = -2
                    then destino_r9 P s tent dia_destino per_fonte sala_fonte n' (aux3 + 1) rs'
                    else Some (n', rs') }
                  else destino_r9 P s tent dia_destino per_fonte sala_fonte n (aux3 + 1) rs' } })
         | _ \<Rightarrow> None)
      else Some (n, rs))"

definition celulas :: "int list \<Rightarrow> nat \<Rightarrow> (int \<times> int) list" where
  "celulas pers ns = concat (map (\<lambda>per. map (\<lambda>sal. (per, int sal)) [0..<ns]) pers)"

definition mov_r9 ::
  "Problema \<Rightarrow> real \<Rightarrow> Indices \<Rightarrow> int list list \<Rightarrow> int list \<Rightarrow> (int list list \<times> Indices \<times> int list) option" where
  "mov_r9 P T s n rs = do {
     (prof_violador, rs1) \<leftarrow> procura_prof P s 100 rs;
     if prof_violador \<noteq> -1 then do {
       ds \<leftarrow> dias_trabalhados P s prof_violador;
       (case rs1 of
          v1 # v2 # rs2 \<Rightarrow> do {
            dia_fonte \<leftarrow> le ds (randomInt 0 (int (length ds) - 1) v1);
            d0 \<leftarrow> le ds (randomInt 0 (int (length ds) - 1) v2);
            (dia_destino, rs3) \<leftarrow> outro_dia ds dia_fonte d0 rs2;
            fonte \<leftarrow> procura_aula P prof_violador n
              (celulas [dia_fonte * int (periodos_dia P) ..
                        (dia_fonte + 1) * int (periodos_dia P) - 1] (salas P));
            (case fonte of
               None \<Rightarrow> Some (n, s, rs3)
             | Some (per_fonte, sala_fonte) \<Rightarrow> do {
                 (n', rs4) \<leftarrow>
                   destino_r9 P s (tentativas T) dia_destino per_fonte sala_fonte n 0 rs3;
                 Some (n', s, rs4) }) }
        | _ \<Rightarrow> None) }
     else Some (n, s, rs1) }"

text \<open>Class 7, a room of the wrong type (lines 1411 to 1469). \<open>melhora_r10\<close> is the
  test of the second and third branches.\<close>

definition melhora_r10 :: "Problema \<Rightarrow> int \<Rightarrow> Sala \<Rightarrow> Disciplina \<Rightarrow> int \<Rightarrow> bool option" where
  "melhora_r10 P sal sl da x =
     (if x \<noteq> -1 then do {
        dx \<leftarrow> le (disc P) x;
        c2 \<leftarrow> (if sala_tipo_sala sl = disc_tipo_sala da then do {
                 ss \<leftarrow> le (sala P) sal;
                 Some (disc_tipo_sala dx = sala_tipo_sala ss) }
               else Some False);
        Some (c2 \<or> disc_tipo_sala dx \<noteq> sala_tipo_sala sl) }
      else Some False)"

fun destino_r10 ::
  "Problema \<Rightarrow> int \<Rightarrow> int \<Rightarrow> int \<Rightarrow> int \<Rightarrow> int list list \<Rightarrow> int \<Rightarrow> int list \<Rightarrow>
     (int list list \<times> int list) option" where
  "destino_r10 P tent aux per sal n aux3 (v1 # v2 # rs) =
     (let k = randomInt 0 (int (total_periodos P) - 1) v1;
          l = randomInt 0 (int (salas P) - 1) v2
      in do {
        x \<leftarrow> le2 n k l;
        sl \<leftarrow> le (sala P) l;
        da \<leftarrow> le (disc P) aux;
        if x = -1 \<and> sala_tipo_sala sl = disc_tipo_sala da then do {
          aux2 \<leftarrow> le2 n per sal;
          n' \<leftarrow> muda n per sal k l;
          if aux2 = -2 then destino_r10 P tent aux per sal n' (aux3 + 1) rs else Some (n', rs) }
        else do {
          b \<leftarrow> melhora_r10 P sal sl da x;
          if b \<or> aux3 \<ge> tent then do {
            aux2 \<leftarrow> le2 n per sal;
            n' \<leftarrow> troca n per sal k l;
            if aux2 = -2 then destino_r10 P tent aux per sal n' (aux3 + 1) rs else Some (n', rs) }
          else destino_r10 P tent aux per sal n (aux3 + 1) rs } })"
| "destino_r10 P tent aux per sal n aux3 _ = None"

definition mov_r10 ::
  "Problema \<Rightarrow> real \<Rightarrow> Indices \<Rightarrow> int list list \<Rightarrow> int list \<Rightarrow> (int list list \<times> Indices \<times> int list) option" where
  "mov_r10 P T s n rs = do {
     (aux, rs1) \<leftarrow> escolhe (\<lambda>j. le2 (aux_mov_r10 s) j 0) P 0 rs;
     w \<leftarrow> le2 (aux_mov_r10 s) aux 1;
     (per, sal) \<leftarrow> decodifica P w;
     (n', rs2) \<leftarrow> destino_r10 P (tentativas T) aux per sal n 0 rs1;
     v \<leftarrow> le (restricoes_violadas s) 10;
     rv \<leftarrow> esc (restricoes_violadas s) 10 (v - 1);
     m1 \<leftarrow> esc2 (aux_mov_r10 s) aux 0 (-1);
     m \<leftarrow> esc2 m1 aux 1 (-1);
     Some (n', s\<lparr>restricoes_violadas := rv, aux_mov_r10 := m\<rparr>, rs2) }"

text \<open>Class 8, a course twice on a day (lines 1475 to 1528). \<open>procura_r11\<close> is the
  double loop that stops at the first witness; \<open>destino_r11\<close> gives up after
  \<open>3 * tentativas\<close> draws (its third branch can never be taken, the second has the
  same test). The class clears the witness and leaves \<open>restricoes_violadas\<close> alone.\<close>

fun procura_r11 :: "int list list \<Rightarrow> (int \<times> int) list \<Rightarrow> (int \<times> int) option option" where
  "procura_r11 m [] = Some None"
| "procura_r11 m ((per, sal) # ps) = do {
     x \<leftarrow> le2 m per sal;
     if x \<noteq> -1 then Some (Some (per, sal)) else procura_r11 m ps }"

fun destino_r11 ::
  "Problema \<Rightarrow> int \<Rightarrow> int \<Rightarrow> int \<Rightarrow> int \<Rightarrow> int list list \<Rightarrow> int \<Rightarrow> int list \<Rightarrow>
     (int list list \<times> int list) option" where
  "destino_r11 P tent dia_r11 per_r11 sal_r11 n aux3 rs =
     (if aux3 < tent * 3 then
        (case rs of
           v1 # v2 # rs' \<Rightarrow>
             (let k = randomInt 0 (int (total_periodos P) - 1) v1;
                  l = randomInt 0 (int (salas P) - 1) v2
              in do {
                d \<leftarrow> c_div k (int (periodos_dia P));
                if d \<noteq> dia_r11 then do {
                  x \<leftarrow> le2 n k l;
                  if x = -1 then do {
                    aux2 \<leftarrow> le2 n per_r11 sal_r11;
                    n' \<leftarrow> muda n per_r11 sal_r11 k l;
                    if aux2 = -2
                    then destino_r11 P tent dia_r11 per_r11 sal_r11 n' (aux3 + 1) rs'
                    else Some (n', rs') }
                  else do {
                    n' \<leftarrow> troca n k l per_r11 sal_r11;
                    if x = -2
                    then destino_r11 P tent dia_r11 per_r11 sal_r11 n' (aux3 + 1) rs'
                    else Some (n', rs') } }
                else destino_r11 P tent dia_r11 per_r11 sal_r11 n (aux3 + 1) rs' })
         | _ \<Rightarrow> None)
      else Some (n, rs))"

definition mov_r11 ::
  "Problema \<Rightarrow> real \<Rightarrow> Indices \<Rightarrow> int list list \<Rightarrow> int list \<Rightarrow> (int list list \<times> Indices \<times> int list) option" where
  "mov_r11 P T s n rs = do {
     achado \<leftarrow> procura_r11 (aux_mov_r11 s)
       (celulas (map int [0..<total_periodos P]) (salas P));
     (case achado of
        None \<Rightarrow> Some (n, s, rs)
      | Some (per_r11, sal_r11) \<Rightarrow> do {
          dia_r11 \<leftarrow> c_div per_r11 (int (periodos_dia P));
          (n', rs') \<leftarrow> destino_r11 P (tentativas T) dia_r11 per_r11 sal_r11 n 0 rs;
          m \<leftarrow> esc2 (aux_mov_r11 s) per_r11 sal_r11 (-1);
          Some (n', s\<lparr>aux_mov_r11 := m\<rparr>, rs') }) }"

text \<open>\<open>geraViz\<close> (lines 1030 to 1589): the draw of \<open>movimento\<close> and the cascade of
  classes. \<open>x << 7\<close> is \<open>x * 128\<close> and \<open>x >> 3\<close> is \<open>x div 8\<close>. The temperature
  \<open>T\<close> is a global of the source.\<close>

definition so_grade ::
  "Indices \<Rightarrow> (int list list \<times> int list) option \<Rightarrow> (int list list \<times> Indices \<times> int list) option" where
  "so_grade s r = map_option (\<lambda>(n, rs). (n, s, rs)) r"

definition geraViz ::
  "Problema \<Rightarrow> real \<Rightarrow> Indices \<Rightarrow> int list list \<Rightarrow> int list \<Rightarrow> (int list list \<times> Indices \<times> int list) option" where
  "geraViz P T s n rs =
     (case rs of
        [] \<Rightarrow> None
      | r # rs' \<Rightarrow>
          (let movimento = randomInt 0 1000 r in do {
             v2 \<leftarrow> le (restricoes_violadas s) 2;
             if v2 \<noteq> -1 \<and> movimento < 100 + resto v2 1000 * 128 then mov_r21 P T s n rs'
             else if v2 \<noteq> -1 \<and> movimento < 100 + v2 div 8 then mov_r22 P T s n rs'
             else do {
             v6 \<leftarrow> le (restricoes_violadas s) 6;
             if v6 \<noteq> -1 \<and> movimento \<ge> 100 \<and> movimento < 200 + 2 * v6 then mov_r6 P T s n rs'
             else do {
             v7 \<leftarrow> le (restricoes_violadas s) 7;
             if v7 \<noteq> -1 \<and> movimento \<ge> 200 \<and> movimento < 300 + v7 then mov_r7 P T s n rs'
             else do {
             v8 \<leftarrow> le (restricoes_violadas s) 8;
             if v8 \<noteq> -1 \<and> movimento \<ge> 300 \<and> movimento < 400 + v8 then mov_r8 P T s n rs'
             else do {
             v9 \<leftarrow> le (restricoes_violadas s) 9;
             if v9 \<noteq> -1 \<and> movimento \<ge> 400 \<and> movimento < 500 + v9 * 20 then mov_r9 P T s n rs'
             else do {
             v10 \<leftarrow> le (restricoes_violadas s) 10;
             if v10 \<noteq> -1 \<and> movimento \<ge> 500 \<and> movimento < 600 + v10 then mov_r10 P T s n rs'
             else do {
             v11 \<leftarrow> le (restricoes_violadas s) 11;
             if v11 \<noteq> -1 \<and> movimento \<ge> 600 \<and> movimento < 700 + v11 * 100
             then mov_r11 P T s n rs'
             else if movimento \<ge> 700 \<and> movimento < 800 then so_grade s (mov_periodo P T n rs')
             else if movimento \<ge> 800 \<and> movimento < 900 then so_grade s (mov_sala P T n rs')
             else so_grade s (mov_aleatorio P T n rs') } } } } } } }))"

text \<open>What a move keeps of the grid: the multiset of the contents of its cells and
  the lengths of its rows.\<close>

definition conserva :: "int list list \<Rightarrow> int list list \<Rightarrow> bool" where
  "conserva n n' \<longleftrightarrow> mset (concat n') = mset (concat n) \<and> map length n' = map length n"

subsection \<open>Conflicts, counted on the grid\<close>

text \<open>The lectures of teacher \<open>t\<close> (of curriculum \<open>k\<close>) in period \<open>p\<close> among the rooms
  below \<open>j\<close>, and the number of (period, teacher) and (period, curriculum) pairs with
  more than one lecture. \<open>codifica\<close> is the composition the source keeps in
  \<open>restricoes_violadas[2]\<close>.\<close>

definition conta_prof :: "Problema \<Rightarrow> int list list \<Rightarrow> nat \<Rightarrow> nat \<Rightarrow> nat \<Rightarrow> nat" where
  "conta_prof P n p t j =
     length [r \<leftarrow> [0..<j]. n ! p ! r \<noteq> -1 \<and> disc_prof (disc P ! nat (n ! p ! r)) = int t]"

definition conta_curso :: "Problema \<Rightarrow> int list list \<Rightarrow> nat \<Rightarrow> nat \<Rightarrow> nat \<Rightarrow> nat" where
  "conta_curso P n p k j =
     length [r \<leftarrow> [0..<j]. n ! p ! r \<noteq> -1 \<and> disc_cursos (disc P ! nat (n ! p ! r)) ! k = 1]"

definition conflitos_prof :: "Problema \<Rightarrow> int list list \<Rightarrow> nat" where
  "conflitos_prof P n =
     (\<Sum>p \<leftarrow> [0..<total_periodos P].
        length [t \<leftarrow> [0..<professores P]. 1 < conta_prof P n p t (salas P)])"

definition conflitos_curso :: "Problema \<Rightarrow> int list list \<Rightarrow> nat" where
  "conflitos_curso P n =
     (\<Sum>p \<leftarrow> [0..<total_periodos P].
        length [k \<leftarrow> [0..<cursos P]. 1 < conta_curso P n p k (salas P)])"

definition codifica :: "nat \<Rightarrow> nat \<Rightarrow> int" where
  "codifica tp cp = (if tp + cp \<ge> 1 then int tp + 1000 * int cp else -1)"

subsection \<open>The empty grid\<close>

text \<open>\<open>criaMatriz\<close> (lines 973 to 986) allocates the grid with every cell -1; \<open>fo\<close> is
  left uninitialised there, so only the grid is modelled.\<close>

definition criaMatriz :: "Problema \<Rightarrow> int list list" where
  "criaMatriz P = replicate (total_periodos P) (replicate (salas P) (-1))"

text \<open>The value the specification gives for the empty grid: the R1 shortfall alone.\<close>

definition soma_r1 :: "Problema \<Rightarrow> int" where
  "soma_r1 P = (\<Sum>i \<leftarrow> [0..<disciplinas P]. 1000000 * disc_aulas (disc P ! i))"

text \<open>The days on which the seed of phase 1 marks teacher \<open>t\<close>, and the objective of
  the empty grid as the source computes it: R1 for the missing lectures, R5 for the
  missing days of every course, R9 for a teacher seeded with more than two days.\<close>

definition dias_semeados :: "Problema \<Rightarrow> nat \<Rightarrow> nat" where
  "dias_semeados P t =
     (case dias_ocupados_integral P of
        Some ocupados \<Rightarrow>
          if usar_restricao_integral P \<noteq> 0 \<and> int t < num_profs_da_integral P
          then length [d \<leftarrow> [0..<dias P]. 0 < ocupados ! t ! d] else 0
      | None \<Rightarrow> 0)"

definition fo_vazia :: "Problema \<Rightarrow> int" where
  "fo_vazia P =
     (\<Sum>i \<leftarrow> [0..<disciplinas P].
        1000000 * \<bar>disc_aulas (disc P ! i)\<bar> + 5 * max 0 (disc_minDias (disc P ! i))) +
     (\<Sum>t \<leftarrow> [0..<professores P]. 5 * max 0 (int (dias_semeados P t) - 2))"

subsection \<open>A small instance\<close>

text \<open>Two days of two periods, two rooms, two courses of one teacher and one
  curriculum; course 1 is unavailable on day 0, period 1.\<close>

definition P_ex :: Problema where
  "P_ex = \<lparr>disc = [\<lparr>disc_cursos = [1], disc_prof = 0, disc_aulas = 2, disc_minDias = 2,
                     disc_alunos = 30, disc_tipo_sala = 1\<rparr>,
                   \<lparr>disc_cursos = [1], disc_prof = 0, disc_aulas = 1, disc_minDias = 1,
                     disc_alunos = 10, disc_tipo_sala = 2\<rparr>],
           sala = [\<lparr>sala_capacidade = 20, sala_tipo_sala = 1\<rparr>,
                   \<lparr>sala_capacidade = 40, sala_tipo_sala = 2\<rparr>],
           restricao = [\<lparr>restricao_disciplina = 1, restricao_dia = 0, restricao_per = 1\<rparr>],
           posicao_restricao_0 = [-1, 0], posicao_restricao_1 = [-1, 0],
           professores = 1, disciplinas = 2, salas = 2, dias = 2, periodos_dia = 2, cursos = 1,
           usar_restricao_integral = 0, dias_ocupados_integral = None,
           num_profs_da_integral = 0\<rparr>"

definition s_lixo :: Indices where
  "s_lixo = \<lparr>r1 = [7, 7], r21 = replicate 4 [5], r22 = replicate 4 [5], r5 = replicate 2 [3, 3],
     r8 = [9, 9], r9 = [[1, 1]], r11 = replicate 2 [4, 4], restricoes_violadas = replicate 12 3,
     aux_mov_r21 = [1, 1], aux_mov_r22 = [1, 1], aux_mov_r4 = [1, 1], aux_mov_r5 = [1, 1],
     aux_mov_r6 = replicate 4 [2, 2], aux_mov_r7 = replicate 2 [2, 2], aux_mov_r8 = replicate 4 0,
     aux_mov_r9 = [8], aux_mov_r10 = replicate 2 [2, 2], aux_mov_r11 = replicate 4 [2, 2]\<rparr>"

definition s_zero :: Indices where
  "s_zero = \<lparr>r1 = [0, 0], r21 = replicate 4 [0], r22 = replicate 4 [0], r5 = replicate 2 [0, 0],
     r8 = [0, 0], r9 = [[0, 0]], r11 = replicate 2 [0, 0], restricoes_violadas = replicate 12 0,
     aux_mov_r21 = [0, 0], aux_mov_r22 = [0, 0], aux_mov_r4 = [0, 0], aux_mov_r5 = [0, 0],
     aux_mov_r6 = replicate 4 [0, 0], aux_mov_r7 = replicate 2 [0, 0], aux_mov_r8 = replicate 4 0,
     aux_mov_r9 = [0], aux_mov_r10 = replicate 2 [0, 0], aux_mov_r11 = replicate 4 [0, 0]\<rparr>"

definition g_ex :: "int list list" where
  "g_ex = [[0, 1], [0, 1], [-1, -1], [-1, -1]]"

definition s_ex :: Indices where
  "s_ex = \<lparr>r1 = [2, 2], r21 = [[2], [2], [0], [0]], r22 = [[2], [2], [0], [0]],
     r5 = [[2, 0], [2, 0]], r8 = [0, 1], r9 = [[1, 0]], r11 = [[2, 2], [0, 0]],
     restricoes_violadas = [-1, -1, 2002, -1, 0, 0, -1, 19, -1, -1, -1, 1],
     aux_mov_r21 = [-1, 5], aux_mov_r22 = [-1, 5], aux_mov_r4 = [-1, 5], aux_mov_r5 = [1, -1],
     aux_mov_r6 = [[-1, -1], [-1, -1], [-1, -1], [-1, -1]], aux_mov_r7 = [[10, 0], [-1, -1]],
     aux_mov_r8 = [-1, -1, -1, -1], aux_mov_r9 = [-1], aux_mov_r10 = [[-1, -1], [-1, -1]],
     aux_mov_r11 = [[-1, -1], [0, 1], [-1, -1], [-1, -1]]\<rparr>"

text \<open>The same instance as a second phase: teacher 0 taught on day 1 in phase 1.\<close>

definition P_sem :: Problema where
  "P_sem = P_ex\<lparr>usar_restricao_integral := 1, dias_ocupados_integral := Some [[0, 1]],
     num_profs_da_integral := 1\<rparr>"

definition s_vazia :: Indices where
  "s_vazia = \<lparr>r1 = [0, 0], r21 = [[0], [0], [0], [0]], r22 = [[0], [0], [0], [0]],
     r5 = [[0, 0], [0, 0]], r8 = [-1, -1], r9 = [[0, 0]], r11 = [[0, 0], [0, 0]],
     restricoes_violadas = [-1, -1, -1, -1, -1, -1, -1, -1, -1, -1, -1, -1],
     aux_mov_r21 = [-1, -1], aux_mov_r22 = [-1, -1], aux_mov_r4 = [-1, -1], aux_mov_r5 = [0, 0],
     aux_mov_r6 = [[-1, -1], [-1, -1], [-1, -1], [-1, -1]], aux_mov_r7 = [[-1, -1], [-1, -1]],
     aux_mov_r8 = [-1, -1, -1, -1], aux_mov_r9 = [-1], aux_mov_r10 = [[-1, -1], [-1, -1]],
     aux_mov_r11 = [[-1, -1], [-1, -1], [-1, -1], [-1, -1]]\<rparr>"

text \<open>Three days of one period, two rooms, three courses of one lecture each, all of
  teacher 0 and of no curriculum; as a second phase, teacher 0 is seeded on all three
  days.\<close>

definition P_tres :: Problema where
  "P_tres = \<lparr>disc = [\<lparr>disc_cursos = [0], disc_prof = 0, disc_aulas = 1, disc_minDias = 1,
                       disc_alunos = 10, disc_tipo_sala = 1\<rparr>,
                     \<lparr>disc_cursos = [0], disc_prof = 0, disc_aulas = 1, disc_minDias = 1,
                       disc_alunos = 10, disc_tipo_sala = 1\<rparr>,
                     \<lparr>disc_cursos = [0], disc_prof = 0, disc_aulas = 1, disc_minDias = 1,
                       disc_alunos = 10, disc_tipo_sala = 1\<rparr>],
             sala = [\<lparr>sala_capacidade = 20, sala_tipo_sala = 1\<rparr>,
                     \<lparr>sala_capacidade = 20, sala_tipo_sala = 1\<rparr>],
             restricao = [],
             posicao_restricao_0 = [-1, -1, -1], posicao_restricao_1 = [-1, -1, -1],
             professores = 1, disciplinas = 3, salas = 2, dias = 3, periodos_dia = 1, cursos = 1,
             usar_restricao_integral = 0, dias_ocupados_integral = None,
             num_profs_da_integral = 0\<rparr>"

definition P_tres_sem :: Problema where
  "P_tres_sem = P_tres\<lparr>usar_restricao_integral := 1,
     dias_ocupados_integral := Some [[1, 1, 1]], num_profs_da_integral := 1\<rparr>"

definition s_tres_lixo :: Indices where
  "s_tres_lixo = \<lparr>r1 = [7, 7, 7], r21 = replicate 3 [5], r22 = replicate 3 [5],
     r5 = replicate 3 [3, 3, 3], r8 = [9, 9, 9], r9 = [[1, 0, 1]], r11 = replicate 3 [4, 4, 4],
     restricoes_violadas = replicate 12 3,
     aux_mov_r21 = [1, 1, 1], aux_mov_r22 = [1, 1, 1], aux_mov_r4 = [1, 1, 1],
     aux_mov_r5 = [1, 1, 1], aux_mov_r6 = replicate 3 [2, 2], aux_mov_r7 = replicate 3 [2, 2],
     aux_mov_r8 = replicate 3 0, aux_mov_r9 = [8], aux_mov_r10 = replicate 3 [2, 2],
     aux_mov_r11 = replicate 3 [2, 2]\<rparr>"

definition g_tres :: "int list list" where
  "g_tres = [[0, -1], [1, -1], [2, -1]]"

definition s_tres_vazia :: Indices where
  "s_tres_vazia = \<lparr>r1 = [0, 0, 0], r21 = [[0], [0], [0]], r22 = [[0], [0], [0]],
     r5 = [[0, 0, 0], [0, 0, 0], [0, 0, 0]], r8 = [-1, -1, -1], r9 = [[1, 1, 1]],
     r11 = [[0, 0, 0], [0, 0, 0], [0, 0, 0]],
     restricoes_violadas = [-1, -1, -1, -1, -1, -1, -1, -1, -1, 0, -1, -1],
     aux_mov_r21 = [-1, -1, -1], aux_mov_r22 = [-1, -1, -1], aux_mov_r4 = [-1, -1, -1],
     aux_mov_r5 = [0, 0, 0], aux_mov_r6 = [[-1, -1], [-1, -1], [-1, -1]],
     aux_mov_r7 = [[-1, -1], [-1, -1], [-1, -1]], aux_mov_r8 = [-1, -1, -1], aux_mov_r9 = [3],
     aux_mov_r10 = [[-1, -1], [-1, -1], [-1, -1]],
     aux_mov_r11 = [[-1, -1], [-1, -1], [-1, -1]]\<rparr>"

text \<open>Three days of one period, three rooms and a single course of three lectures, which
  the grid \<open>g_um\<close> holds in a different room on each day.\<close>

definition P_um :: Problema where
  "P_um = \<lparr>disc = [\<lparr>disc_cursos = [0], disc_prof = 0, disc_aulas = 3, disc_minDias = 1,
                     disc_alunos = 10, disc_tipo_sala = 1\<rparr>],
           sala = [\<lparr>sala_capacidade = 20, sala_tipo_sala = 1\<rparr>,
                   \<lparr>sala_capacidade = 20, sala_tipo_sala = 1\<rparr>,
                   \<lparr>sala_capacidade = 20, sala_tipo_sala = 1\<rparr>],
           restricao = [], posicao_restricao_0 = [-1], posicao_restricao_1 = [-1],
           professores = 1, disciplinas = 1, salas = 3, dias = 3, periodos_dia = 1, cursos = 1,
           usar_restricao_integral = 0, dias_ocupados_integral = None,
           num_profs_da_integral = 0\<rparr>"

definition s_um_lixo :: Indices where
  "s_um_lixo = \<lparr>r1 = [7], r21 = replicate 3 [5], r22 = replicate 3 [5], r5 = [[3, 3, 3]],
     r8 = [9], r9 = [[1, 0, 1]], r11 = replicate 3 [4], restricoes_violadas = replicate 12 3,
     aux_mov_r21 = [1], aux_mov_r22 = [1], aux_mov_r4 = [1], aux_mov_r5 = [1],
     aux_mov_r6 = replicate 3 [2, 2, 2], aux_mov_r7 = [[2, 2]], aux_mov_r8 = replicate 3 0,
     aux_mov_r9 = [8], aux_mov_r10 = [[2, 2]], aux_mov_r11 = replicate 3 [2, 2, 2]\<rparr>"

definition g_um :: "int list list" where
  "g_um = [[0, -1, -1], [-1, 0, -1], [-1, -1, 0]]"

definition s_um :: Indices where
  "s_um = \<lparr>r1 = [3], r21 = [[1], [1], [1]], r22 = [[0], [0], [0]], r5 = [[1, 1, 1]],
     r8 = [0], r9 = [[1, 1, 1]], r11 = [[1], [1], [1]],
     restricoes_violadas = [-1, -1, -1, -1, -1, -1, -1, -1, 1, 0, -1, -1],
     aux_mov_r21 = [-1], aux_mov_r22 = [-1], aux_mov_r4 = [-1], aux_mov_r5 = [-1],
     aux_mov_r6 = [[-1, -1, -1], [-1, -1, -1], [-1, -1, -1]], aux_mov_r7 = [[-1, -1]],
     aux_mov_r8 = [4, 8, -1], aux_mov_r9 = [3], aux_mov_r10 = [[-1, -1]],
     aux_mov_r11 = [[-1, -1, -1], [-1, -1, -1], [-1, -1, -1]]\<rparr>"

text \<open>One period, one room and a single course that requires 3000 lectures.\<close>

definition P_longo :: Problema where
  "P_longo = \<lparr>disc = [\<lparr>disc_cursos = [0], disc_prof = 0, disc_aulas = 3000, disc_minDias = 1,
                        disc_alunos = 10, disc_tipo_sala = 1\<rparr>],
              sala = [\<lparr>sala_capacidade = 20, sala_tipo_sala = 1\<rparr>],
              restricao = [], posicao_restricao_0 = [-1], posicao_restricao_1 = [-1],
              professores = 1, disciplinas = 1, salas = 1, dias = 1, periodos_dia = 1, cursos = 1,
              usar_restricao_integral = 0, dias_ocupados_integral = None,
              num_profs_da_integral = 0\<rparr>"

definition s_longo :: Indices where
  "s_longo = \<lparr>r1 = [0], r21 = [[0]], r22 = [[0]], r5 = [[0]], r8 = [-1], r9 = [[0]],
     r11 = [[0]], restricoes_violadas = [-1, -1, -1, -1, -1, -1, -1, -1, -1, -1, -1, -1],
     aux_mov_r21 = [-1], aux_mov_r22 = [-1], aux_mov_r4 = [-1], aux_mov_r5 = [0],
     aux_mov_r6 = [[-1]], aux_mov_r7 = [[-1, -1]], aux_mov_r8 = [-1], aux_mov_r9 = [-1],
     aux_mov_r10 = [[-1, -1]], aux_mov_r11 = [[-1]]\<rparr>"

text \<open>A grid of \<open>P_ex\<close> with both courses in rooms of the wrong type, and the indices
  that \<open>calcula_FO\<close> leaves for it; the indices that it leaves for \<open>g_tres\<close>.\<close>

definition g_tipo :: "int list list" where
  "g_tipo = [[1, 0], [-1, -1], [0, -1], [-1, -1]]"

definition s_tipo :: Indices where
  "s_tipo = \<lparr>r1 = [2, 1], r21 = [[2], [0], [1], [0]], r22 = [[2], [0], [1], [0]],
     r5 = [[1, 1], [1, 0]], r8 = [1, 0], r9 = [[1, 1]], r11 = [[1, 1], [1, 0]],
     restricoes_violadas = [-1, -1, 1001, -1, -1, -1, 2, 9, 0, -1, 1, -1],
     aux_mov_r21 = [4, -1], aux_mov_r22 = [4, -1], aux_mov_r4 = [-1, -1], aux_mov_r5 = [-1, -1],
     aux_mov_r6 = [[1, 0], [-1, -1], [0, -1], [-1, -1]], aux_mov_r7 = [[10, 2], [-1, -1]],
     aux_mov_r8 = [2, -1, -1, -1], aux_mov_r9 = [-1], aux_mov_r10 = [[1, 4], [2, 0]],
     aux_mov_r11 = [[-1, -1], [-1, -1], [-1, -1], [-1, -1]]\<rparr>"

definition s_tres :: Indices where
  "s_tres = \<lparr>r1 = [1, 1, 1], r21 = [[1], [1], [1]], r22 = [[0], [0], [0]],
     r5 = [[1, 0, 0], [0, 1, 0], [0, 0, 1]], r8 = [0, 0, 0], r9 = [[1, 1, 1]],
     r11 = [[1, 0, 0], [0, 1, 0], [0, 0, 1]],
     restricoes_violadas = [-1, -1, -1, -1, -1, -1, -1, -1, -1, 0, -1, -1],
     aux_mov_r21 = [-1, -1, -1], aux_mov_r22 = [-1, -1, -1], aux_mov_r4 = [-1, -1, -1],
     aux_mov_r5 = [-1, -1, -1], aux_mov_r6 = [[-1, -1], [-1, -1], [-1, -1]],
     aux_mov_r7 = [[-1, -1], [-1, -1], [-1, -1]], aux_mov_r8 = [-1, -1, -1], aux_mov_r9 = [3],
     aux_mov_r10 = [[-1, -1], [-1, -1], [-1, -1]],
     aux_mov_r11 = [[-1, -1], [-1, -1], [-1, -1]]\<rparr>"

section \<open>Properties\<close>

subsection \<open>Checked arrays and loops\<close>

lemma le_int [simp]: "i < length v \<Longrightarrow> le v (int i) = Some (v ! i)"
  by (simp add: le_def)

lemma esc_int [simp]: "i < length v \<Longrightarrow> esc v (int i) x = Some (v[i := x])"
  by (simp add: esc_def)

lemma le_Some: "le v i = Some x \<longleftrightarrow> 0 \<le> i \<and> nat i < length v \<and> x = v ! nat i"
  by (auto simp: le_def)

lemma esc_Some: "esc v i x = Some v' \<longleftrightarrow> 0 \<le> i \<and> nat i < length v \<and> v' = v[nat i := x]"
  by (auto simp: esc_def)

lemma esc2_Some:
  "esc2 m i j x = Some m' \<longleftrightarrow>
     0 \<le> i \<and> nat i < length m \<and> 0 \<le> j \<and> nat j < length (m ! nat i) \<and>
     m' = m[nat i := (m ! nat i)[nat j := x]]"
  by (auto simp: esc2_def le_Some esc_Some bind_eq_Some_conv)

lemma le2_Some:
  "le2 m i j = Some x \<longleftrightarrow>
     0 \<le> i \<and> nat i < length m \<and> 0 \<le> j \<and> nat j < length (m ! nat i) \<and> x = m ! nat i ! nat j"
  by (auto simp: le2_def le_Some bind_eq_Some_conv)

lemma le2_int [simp]: "i < length m \<Longrightarrow> j < length (m ! i) \<Longrightarrow> le2 m (int i) (int j) = Some (m ! i ! j)"
  by (simp add: le2_def)

lemma esc2_int [simp]:
  "i < length m \<Longrightarrow> j < length (m ! i) \<Longrightarrow> esc2 m (int i) (int j) x = Some (m[i := (m ! i)[j := x]])"
  by (simp add: esc2_def)

lemma esc_length: "esc v i x = Some v' \<Longrightarrow> length v' = length v"
  by (auto simp: esc_Some)

lemma esc2_forma: "esc2 m i j x = Some m' \<Longrightarrow> map length m' = map length m"
  by (auto simp: esc2_Some map_update list_update_same_conv)

lemma para_regra:
  assumes "para k f s = Some s'" and "I 0 s"
    and "\<And>i t t'. i < k \<Longrightarrow> I i t \<Longrightarrow> f i t = Some t' \<Longrightarrow> I (Suc i) t'"
  shows "I k s'"
  using assms
proof (induction k arbitrary: s')
  case 0
  then show ?case by simp
next
  case (Suc k)
  from Suc.prems(1) obtain t where t: "para k f s = Some t" and ft: "f k t = Some s'"
    by (auto simp: bind_eq_Some_conv)
  have "I k t"
    by (rule Suc.IH [OF t Suc.prems(2)]) (use Suc.prems(3) in auto)
  then show ?case using Suc.prems(3) [of k t s'] ft by simp
qed

lemma para_total:
  assumes "I 0 s"
    and "\<And>i t. i < k \<Longrightarrow> I i t \<Longrightarrow> \<exists>t'. f i t = Some t' \<and> I (Suc i) t'"
  shows "\<exists>s'. para k f s = Some s' \<and> I k s'"
  using assms
proof (induction k)
  case 0
  then show ?case by simp
next
  case (Suc k)
  have "\<exists>t. para k f s = Some t \<and> I k t"
    by (rule Suc.IH [OF Suc.prems(1)]) (use Suc.prems(2) in auto)
  then obtain t where t: "para k f s = Some t" "I k t" by blast
  with Suc.prems(2) [of k t] show ?case by auto
qed

lemma para_preserva:
  assumes "para k f s = Some s'" and "\<And>i t t'. f i t = Some t' \<Longrightarrow> Q t' = Q t"
  shows "Q s' = Q s"
  using para_regra [where I = "\<lambda>_ t. Q t = Q s", OF assms(1)] assms(2) by simp

lemma replicate_drop_update:
  "j < length r \<Longrightarrow> (replicate j x @ drop j r)[j := x] = replicate (Suc j) x @ drop (Suc j) r"
  by (simp add: list_update_append replicate_append_same flip: Cons_nth_drop_Suc)

lemma setVetor_alocado:
  assumes "length v = k"
  shows "setVetor v k x = Some (replicate k x)"
proof -
  have "\<exists>v'. para k (\<lambda>i v. esc v (int i) x) v = Some v' \<and> v' = replicate k x @ drop k v"
    by (rule para_total [where I = "\<lambda>i v'. v' = replicate i x @ drop i v"])
       (use assms in \<open>auto simp: replicate_drop_update\<close>)
  then show ?thesis using assms by (auto simp: setVetor_def)
qed

lemma linha_alocada:
  assumes "i < length m" "length (m ! i) = c"
  shows "para c (\<lambda>j m'. esc2 m' (int i) (int j) x) m = Some (m[i := replicate c x])"
proof -
  have "\<exists>m'. para c (\<lambda>j m'. esc2 m' (int i) (int j) x) m = Some m' \<and>
          m' = m[i := replicate c x @ drop c (m ! i)]"
    by (rule para_total [where I = "\<lambda>j m'. m' = m[i := replicate j x @ drop j (m ! i)]"])
       (use assms in \<open>auto simp: replicate_drop_update\<close>)
  then show ?thesis using assms by auto
qed

lemma setMatriz_alocado:
  assumes "map length m = replicate l c"
  shows "setMatriz m l c x = Some (replicate l (replicate c x))"
proof -
  have len: "length m = l" using assms by (metis length_map length_replicate)
  have row: "\<And>i. i < l \<Longrightarrow> length (m ! i) = c"
    using assms len by (metis nth_map nth_replicate)
  have "\<exists>m'. para l (\<lambda>i m. para c (\<lambda>j m'. esc2 m' (int i) (int j) x) m) m = Some m' \<and>
          m' = replicate l (replicate c x) @ drop l m"
  proof (rule para_total [where I = "\<lambda>i m'. m' = replicate i (replicate c x) @ drop i m"], simp)
    fix i t assume i: "i < l" and I: "t = replicate i (replicate c x) @ drop i m"
    have lt: "length t = l" using I len i by simp
    have "t ! i = m ! i" using I i len by (simp add: nth_append)
    then have "length (t ! i) = c" using row i by simp
    then have "para c (\<lambda>j m'. esc2 m' (int i) (int j) x) t = Some (t[i := replicate c x])"
      using linha_alocada [of i t c x] i lt by simp
    moreover have "t[i := replicate c x] = replicate (Suc i) (replicate c x) @ drop (Suc i) m"
      using I i len by (simp add: replicate_drop_update)
    ultimately show "\<exists>t'. para c (\<lambda>j m'. esc2 m' (int i) (int j) x) t = Some t' \<and>
       t' = replicate (Suc i) (replicate c x) @ drop (Suc i) m"
      by simp
  qed
  then show ?thesis using len by (auto simp: setMatriz_def)
qed

lemma forma_update [simp]: "length l = length (m ! i) \<Longrightarrow> map length (m[i := l]) = map length m"
  by (cases "i < length m") (simp_all add: map_update list_update_same_conv list_update_beyond)

lemmas acessos = bind_eq_Some_conv esc_Some esc2_Some le_Some le2_Some

lemma alocado_forma: "forma s' = forma s \<Longrightarrow> alocado P s' = alocado P s"
  by (simp add: forma_def alocado_def)

subsection \<open>What each step of the pass leaves alone\<close>

lemma passo_r1_efeito:
  "passo_r1 c s = Some s' \<Longrightarrow>
     forma s' = forma s \<and> r9 s' = r9 s \<and> r21 s' = r21 s \<and> r22 s' = r22 s \<and>
     restricoes_violadas s' = restricoes_violadas s"
  by (auto simp: passo_r1_def forma_def acessos)

lemma passo_r21_efeito:
  "passo_r21 Q i j c s = Some s' \<Longrightarrow>
     forma s' = forma s \<and> r9 s' = r9 s \<and> r22 s' = r22 s \<and>
     restricoes_violadas s' = restricoes_violadas s"
  by (auto simp: passo_r21_def forma_def acessos split: if_splits)

lemma passo_r22_curso_efeito:
  "passo_r22_curso Q i j c k s = Some s' \<Longrightarrow>
     forma s' = forma s \<and> r9 s' = r9 s \<and> r21 s' = r21 s \<and>
     restricoes_violadas s' = restricoes_violadas s"
  by (auto simp: passo_r22_curso_def forma_def acessos split: if_splits)

lemma passo_r22_efeito:
  "passo_r22 Q i j c s = Some s' \<Longrightarrow>
     forma s' = forma s \<and> r9 s' = r9 s \<and> r21 s' = r21 s \<and>
     restricoes_violadas s' = restricoes_violadas s"
  unfolding passo_r22_def
  by (erule para_preserva [where Q = "\<lambda>s. (forma s, r9 s, r21 s, restricoes_violadas s)", simplified])
     (simp add: passo_r22_curso_efeito)

lemma passo_r4_efeito:
  "passo_r4 Q i j c (fo, s) = Some (fo', s') \<Longrightarrow>
     forma s' = forma s \<and> r9 s' = r9 s \<and> r21 s' = r21 s \<and> r22 s' = r22 s \<and>
     restricoes_violadas s' ! 2 = restricoes_violadas s ! 2"
  by (auto simp: passo_r4_def forma_def acessos split: if_splits)

lemma passo_r5_efeito:
  "passo_r5 Q i c s = Some s' \<Longrightarrow>
     forma s' = forma s \<and> r9 s' = r9 s \<and> r21 s' = r21 s \<and> r22 s' = r22 s \<and>
     restricoes_violadas s' = restricoes_violadas s"
  by (auto simp: passo_r5_def forma_def acessos)

lemma r6_curso_efeito:
  "r6_curso Q n dis per sal i (pen, s) = Some (pen', s') \<Longrightarrow>
     forma s' = forma s \<and> r9 s' = r9 s \<and> r21 s' = r21 s \<and> r22 s' = r22 s \<and>
     restricoes_violadas s' ! 2 = restricoes_violadas s ! 2 \<and> pen \<le> pen'"
  apply (clarsimp simp: r6_curso_def acessos split: if_splits)
  apply (erule disjE; clarsimp simp: forma_def)
  done

lemma restricaoR6_efeito:
  assumes "restricaoR6 Q n s dis per sal = Some (pen, s')"
  shows "forma s' = forma s \<and> r9 s' = r9 s \<and> r21 s' = r21 s \<and> r22 s' = r22 s \<and>
     restricoes_violadas s' ! 2 = restricoes_violadas s ! 2 \<and> 0 \<le> pen"
proof -
  have "forma (snd (pen, s')) = forma s \<and> r9 (snd (pen, s')) = r9 s \<and> r21 (snd (pen, s')) = r21 s \<and>
          r22 (snd (pen, s')) = r22 s \<and>
          restricoes_violadas (snd (pen, s')) ! 2 = restricoes_violadas s ! 2 \<and> 0 \<le> fst (pen, s')"
  proof (rule para_regra [where I = "\<lambda>_ a. forma (snd a) = forma s \<and> r9 (snd a) = r9 s \<and>
          r21 (snd a) = r21 s \<and> r22 (snd a) = r22 s \<and>
          restricoes_violadas (snd a) ! 2 = restricoes_violadas s ! 2 \<and> 0 \<le> fst a",
          OF assms [unfolded restricaoR6_def]], simp)
    fix i t t'
    assume I: "forma (snd t) = forma s \<and> r9 (snd t) = r9 s \<and> r21 (snd t) = r21 s \<and>
          r22 (snd t) = r22 s \<and> restricoes_violadas (snd t) ! 2 = restricoes_violadas s ! 2 \<and>
          0 \<le> fst t"
      and "r6_curso Q n dis per sal i t = Some t'"
    from r6_curso_efeito [of Q n dis per sal i "fst t" "snd t" "fst t'" "snd t'"] this
    show "forma (snd t') = forma s \<and> r9 (snd t') = r9 s \<and> r21 (snd t') = r21 s \<and>
          r22 (snd t') = r22 s \<and> restricoes_violadas (snd t') ! 2 = restricoes_violadas s ! 2 \<and>
          0 \<le> fst t'"
      by simp
  qed
  then show ?thesis by simp
qed

lemma passo_r7_efeito:
  "passo_r7 Q i j c (fo, s) = Some (fo', s') \<Longrightarrow>
     forma s' = forma s \<and> r9 s' = r9 s \<and> r21 s' = r21 s \<and> r22 s' = r22 s \<and>
     restricoes_violadas s' ! 2 = restricoes_violadas s ! 2"
  apply (clarsimp simp: passo_r7_def Let_def acessos split: if_splits)
  apply (simp_all add: forma_def)
  done


lemma passo_r8_efeito:
  "passo_r8 Q i j c (fo, s) = Some (fo', s') \<Longrightarrow>
     forma s' = forma s \<and> r9 s' = r9 s \<and> r21 s' = r21 s \<and> r22 s' = r22 s \<and>
     restricoes_violadas s' ! 2 = restricoes_violadas s ! 2"
  by (auto simp: passo_r8_def forma_def acessos split: if_splits)

lemma passo_r9_efeito:
  "passo_r9 Q i c s = Some s' \<Longrightarrow>
     forma s' = forma s \<and> r21 s' = r21 s \<and> r22 s' = r22 s \<and>
     restricoes_violadas s' = restricoes_violadas s"
  by (auto simp: passo_r9_def forma_def acessos split: if_splits)

lemma passo_r10_efeito:
  "passo_r10 Q i j c (fo, s) = Some (fo', s') \<Longrightarrow>
     forma s' = forma s \<and> r9 s' = r9 s \<and> r21 s' = r21 s \<and> r22 s' = r22 s \<and>
     restricoes_violadas s' ! 2 = restricoes_violadas s ! 2"
  by (auto simp: passo_r10_def forma_def acessos split: if_splits)

lemma passo_r11_efeito:
  "passo_r11 Q i j c s = Some s' \<Longrightarrow>
     forma s' = forma s \<and> r9 s' = r9 s \<and> r21 s' = r21 s \<and> r22 s' = r22 s \<and>
     restricoes_violadas s' = restricoes_violadas s"
  apply (clarsimp simp: passo_r11_def acessos split: if_splits)
  apply (erule disjE; clarsimp simp: forma_def)
  done

lemma visita_vazia: "le2 n (int i) (int j) = Some (-1) \<Longrightarrow> visita Q n i j a = Some a"
  by (cases a) (simp add: visita_def)

lemma visita_passos:
  assumes "visita Q n i j (fo, s) = Some (fo', s')" "le2 n (int i) (int j) \<noteq> Some (-1)"
  obtains c s1 s2 s3 fo4 s4 s5 pen s6 fo7 s7 fo8 s8 s9 s10 where
    "le2 n (int i) (int j) = Some c" "c \<noteq> -1"
    "passo_r1 c s = Some s1" "passo_r21 Q i j c s1 = Some s2" "passo_r22 Q i j c s2 = Some s3"
    "passo_r4 Q i j c (fo, s3) = Some (fo4, s4)" "passo_r5 Q i c s4 = Some s5"
    "restricaoR6 Q n s5 c (int i) (int j) = Some (pen, s6)"
    "passo_r7 Q i j c (c_int (fo4 + pen), s6) = Some (fo7, s7)"
    "passo_r8 Q i j c (fo7, s7) = Some (fo8, s8)" "passo_r9 Q i c s8 = Some s9"
    "passo_r10 Q i j c (fo8, s9) = Some (fo', s10)" "passo_r11 Q i j c s10 = Some s'"
  using assms
  by (auto simp: visita_def bind_eq_Some_conv split: if_splits prod.splits)

lemma visita_efeito:
  assumes "visita Q n i j (fo, s) = Some (fo', s')"
  shows "forma s' = forma s \<and> restricoes_violadas s' ! 2 = restricoes_violadas s ! 2"
proof (cases "le2 n (int i) (int j) = Some (-1)")
  case True
  with assms show ?thesis by (simp add: visita_vazia)
next
  case False
  from assms False show ?thesis
  proof (rule visita_passos)
    fix c s1 s2 s3 fo4 s4 s5 pen s6 fo7 s7 fo8 s8 s9 s10
    assume "passo_r1 c s = Some s1" "passo_r21 Q i j c s1 = Some s2" "passo_r22 Q i j c s2 = Some s3"
      "passo_r4 Q i j c (fo, s3) = Some (fo4, s4)" "passo_r5 Q i c s4 = Some s5"
      "restricaoR6 Q n s5 c (int i) (int j) = Some (pen, s6)"
      "passo_r7 Q i j c (c_int (fo4 + pen), s6) = Some (fo7, s7)"
      "passo_r8 Q i j c (fo7, s7) = Some (fo8, s8)" "passo_r9 Q i c s8 = Some s9"
      "passo_r10 Q i j c (fo8, s9) = Some (fo', s10)" "passo_r11 Q i j c s10 = Some s'"
    then show ?thesis
      using passo_r1_efeito [of c s s1] passo_r21_efeito [of Q i j c s1 s2]
        passo_r22_efeito [of Q i j c s2 s3] passo_r4_efeito [of Q i j c fo s3 fo4 s4]
        passo_r5_efeito [of Q i c s4 s5] restricaoR6_efeito [of Q n s5 c "int i" "int j" pen s6]
        passo_r7_efeito [of Q i j c "c_int (fo4 + pen)" s6 fo7 s7] passo_r8_efeito [of Q i j c fo7 s7 fo8 s8]
        passo_r9_efeito [of Q i c s8 s9] passo_r10_efeito [of Q i j c fo8 s9 fo' s10]
        passo_r11_efeito [of Q i j c s10 s']
      by simp
  qed
qed

lemma para_rel:
  assumes "para k f a = Some a'" and "\<And>i t t'. f i t = Some t' \<Longrightarrow> R t t'"
    and "\<And>t. R t t" and "\<And>t u v. R t u \<Longrightarrow> R u v \<Longrightarrow> R t v"
  shows "R a a'"
  by (rule para_regra [where I = "\<lambda>_ t. R a t", OF assms(1)]) (use assms(2-) in blast)+

lemma percorre_efeito:
  assumes "percorre Q n a = Some a'"
  shows "forma (snd a') = forma (snd a) \<and>
     restricoes_violadas (snd a') ! 2 = restricoes_violadas (snd a) ! 2"
proof -
  let ?R = "\<lambda>a a'. forma (snd a') = forma (snd a) \<and>
     restricoes_violadas (snd a') ! 2 = restricoes_violadas (snd a) ! 2"
  have passo: "?R t t'" if "visita Q n i j t = Some t'" for i j t t'
    using visita_efeito [of Q n i j "fst t" "snd t" "fst t'" "snd t'"] that by simp
  have linha: "?R t t'" if "para (salas Q) (visita Q n i) t = Some t'" for i t t'
    by (rule para_rel [where R = ?R, OF that]) (use passo in auto)
  show ?thesis
    by (rule para_rel [where R = ?R, OF assms [unfolded percorre_def]]) (use linha in auto)
qed

subsection \<open>The loops after the pass\<close>

lemma conflito_r2_efeito:
  "conflito_r2 x peso (fo, s) = Some (fo', s') \<Longrightarrow>
     forma s' = forma s \<and> r9 s' = r9 s \<and> r21 s' = r21 s \<and> r22 s' = r22 s"
  by (auto simp: conflito_r2_def forma_def acessos split: if_splits)

lemma pos_r2_efeito:
  assumes "pos_r2 Q a = Some a'"
  shows "forma (snd a') = forma (snd a) \<and> r9 (snd a') = r9 (snd a) \<and>
     r21 (snd a') = r21 (snd a) \<and> r22 (snd a') = r22 (snd a)"
proof -
  let ?R = "\<lambda>a a'. forma (snd a') = forma (snd a) \<and> r9 (snd a') = r9 (snd a) \<and>
     r21 (snd a') = r21 (snd a) \<and> r22 (snd a') = r22 (snd a)"
  have c: "?R t t'" if "conflito_r2 x peso t = Some t'" for x peso t t'
    using conflito_r2_efeito [of x peso "fst t" "snd t" "fst t'" "snd t'"] that by simp
  have p: "?R t t'" if "pos_r21 i j t = Some t'" for i j t t'
  proof -
    from that obtain y where "conflito_r2 y 1 t = Some t'"
      by (auto simp: pos_r21_def bind_eq_Some_conv)
    then show ?thesis by (rule c)
  qed
  have q: "?R t t'" if "pos_r22 i j t = Some t'" for i j t t'
  proof -
    from that obtain y where "conflito_r2 y 1000 t = Some t'"
      by (auto simp: pos_r22_def bind_eq_Some_conv)
    then show ?thesis by (rule c)
  qed
  have lp: "?R t t'" if "para k (pos_r21 i) t = Some t'" for k i t t'
    by (rule para_rel [where R = ?R, OF that]) (use p in auto)
  have lq: "?R t t'" if "para k (pos_r22 i) t = Some t'" for k i t t'
    by (rule para_rel [where R = ?R, OF that]) (use q in auto)
  have per: "?R t t'" if "pos_r2_periodo Q i t = Some t'" for i t t'
  proof -
    from that obtain u where "para (professores Q) (pos_r21 i) t = Some u"
      "para (cursos Q) (pos_r22 i) u = Some t'"
      by (auto simp: pos_r2_periodo_def bind_eq_Some_conv)
    with lp [of "professores Q" i t u] lq [of "cursos Q" i u t'] show ?thesis by simp
  qed
  show ?thesis
    by (rule para_rel [where R = ?R, OF assms [unfolded pos_r2_def]]) (use per in auto)
qed

lemma modulo_nao_negativo: "0 \<le> modulo a b"
  by (simp add: modulo_def)

lemma pos_r1_r5_disc_efeito:
  "pos_r1_r5_disc Q i (fo, s) = Some (fo', s') \<Longrightarrow>
     forma s' = forma s \<and> r9 s' = r9 s \<and> r1 s' = r1 s \<and> r5 s' = r5 s \<and>
     restricoes_violadas s' ! 2 = restricoes_violadas s ! 2"
  apply (clarsimp simp: pos_r1_r5_disc_def Let_def acessos split: if_splits)
   apply (safe?; simp add: forma_def modulo_nao_negativo)+
  done


lemma pos_r9_prof_efeito:
  "pos_r9_prof Q i (fo, s) = Some (fo', s') \<Longrightarrow>
     forma s' = forma s \<and> r9 s' = r9 s \<and>
     restricoes_violadas s' ! 2 = restricoes_violadas s ! 2"
  apply (clarsimp simp: pos_r9_prof_def acessos split: if_splits)
  apply (safe?; simp add: forma_def)+
  done

lemma pos_r11_disc_efeito:
  "pos_r11_disc i j (fo, s) = Some (fo', s') \<Longrightarrow>
     forma s' = forma s \<and> r9 s' = r9 s \<and>
     restricoes_violadas s' ! 2 = restricoes_violadas s ! 2"
  apply (clarsimp simp: pos_r11_disc_def acessos split: if_splits)
  apply (safe?; simp add: forma_def)+
  done

lemma pos_resto_efeito:
  assumes "pos_r1_r5 Q a = Some b" "pos_r9 Q b = Some c" "pos_r11 Q c = Some a'"
  shows "forma (snd a') = forma (snd a) \<and> r9 (snd a') = r9 (snd a) \<and>
     restricoes_violadas (snd a') ! 2 = restricoes_violadas (snd a) ! 2"
proof -
  let ?R = "\<lambda>a a'. forma (snd a') = forma (snd a) \<and> r9 (snd a') = r9 (snd a) \<and>
     restricoes_violadas (snd a') ! 2 = restricoes_violadas (snd a) ! 2"
  have p1: "?R t t'" if "pos_r1_r5_disc Q i t = Some t'" for i t t'
    using pos_r1_r5_disc_efeito [of Q i "fst t" "snd t" "fst t'" "snd t'"] that by simp
  have p9: "?R t t'" if "pos_r9_prof Q i t = Some t'" for i t t'
    using pos_r9_prof_efeito [of Q i "fst t" "snd t" "fst t'" "snd t'"] that by simp
  have p11: "?R t t'" if "pos_r11_disc i j t = Some t'" for i j t t'
    using pos_r11_disc_efeito [of i j "fst t" "snd t" "fst t'" "snd t'"] that by simp
  have l11: "?R t t'" if "para k (pos_r11_disc i) t = Some t'" for k i t t'
    by (rule para_rel [where R = ?R, OF that]) (use p11 in auto)
  have "?R a b"
    by (rule para_rel [where R = ?R, OF assms(1) [unfolded pos_r1_r5_def]]) (use p1 in auto)
  moreover have "?R b c"
    by (rule para_rel [where R = ?R, OF assms(2) [unfolded pos_r9_def]]) (use p9 in auto)
  moreover have "?R c a'"
    by (rule para_rel [where R = ?R, OF assms(3) [unfolded pos_r11_def]]) (use l11 in auto)
  ultimately show ?thesis by simp
qed

subsection \<open>The reset of the indices\<close>

lemma inicializa_alocado:
  assumes "alocado P s"
  shows "inicializa P s = do {
     b9 \<leftarrow> semeia_r9 P (replicate (professores P) (replicate (dias P) 0));
     Some \<lparr>r1 = replicate (disciplinas P) 0,
       r21 = replicate (total_periodos P) (replicate (professores P) 0),
       r22 = replicate (total_periodos P) (replicate (cursos P) 0),
       r5 = replicate (disciplinas P) (replicate (dias P) 0),
       r8 = replicate (disciplinas P) (-1), r9 = b9,
       r11 = replicate (dias P) (replicate (disciplinas P) 0),
       restricoes_violadas = replicate 12 (-1),
       aux_mov_r21 = replicate (disciplinas P) (-1),
       aux_mov_r22 = replicate (disciplinas P) (-1),
       aux_mov_r4 = replicate (disciplinas P) (-1),
       aux_mov_r5 = replicate (disciplinas P) (-1),
       aux_mov_r6 = replicate (total_periodos P) (replicate (salas P) (-1)),
       aux_mov_r7 = replicate (disciplinas P) (replicate 2 (-1)),
       aux_mov_r8 = replicate (total_periodos P) (-1),
       aux_mov_r9 = replicate (professores P) (-1),
       aux_mov_r10 = replicate (disciplinas P) (replicate 2 (-1)),
       aux_mov_r11 = replicate (total_periodos P) (replicate (salas P) (-1))\<rparr> }"
  using assms
  by (simp add: inicializa_def alocado_def setVetor_alocado setMatriz_alocado)

lemma semeia_celula_forma: "semeia_celula P oc i j m = Some m' \<Longrightarrow> map length m' = map length m"
  by (auto simp: semeia_celula_def acessos split: if_splits)

lemma semeia_r9_forma: "semeia_r9 P m = Some m' \<Longrightarrow> map length m' = map length m"
  unfolding semeia_r9_def
  by (auto split: option.splits if_splits
      elim!: para_preserva [where Q = "map length"] simp: semeia_celula_forma)

lemma inicializa_forma: "alocado P s \<Longrightarrow> inicializa P s = Some s' \<Longrightarrow> alocado P s'"
  by (auto simp: inicializa_alocado bind_eq_Some_conv alocado_def dest: semeia_r9_forma)

subsection \<open>The whole evaluation\<close>

lemma calcula_FO_passos:
  assumes "calcula_FO P s n = Some a'"
  obtains s0 a1 a2 a3 a4 where "inicializa P s = Some s0" "percorre P n (0, s0) = Some a1"
    "pos_r2 P a1 = Some a2" "pos_r1_r5 P a2 = Some a3" "pos_r9 P a3 = Some a4"
    "pos_r11 P a4 = Some a'"
  using assms by (auto simp: calcula_FO_def bind_eq_Some_conv)

lemma calcula_FO_efeito:
  assumes "calcula_FO P s n = Some (fo, s')" "alocado P s"
  shows "alocado P s'"
  using assms(1)
proof (rule calcula_FO_passos)
  fix s0 a1 a2 a3 a4
  assume "inicializa P s = Some s0" "percorre P n (0, s0) = Some a1"
    "pos_r2 P a1 = Some a2" "pos_r1_r5 P a2 = Some a3" "pos_r9 P a3 = Some a4"
    "pos_r11 P a4 = Some (fo, s')"
  then show ?thesis
    using inicializa_forma [OF assms(2), of s0] percorre_efeito [of P n "(0, s0)" a1]
      pos_r2_efeito [of P a1 a2] pos_r1_r5_def pos_resto_efeito [of P a2 a3 a4 "(fo, s')"]
      alocado_forma [of s' s0 P]
    by simp
qed

text \<open>C1: for a fixed instance and seed, the evaluator is a function of the grid alone. Whatever
  the indices held before (they only need the allocated shape), the call returns the same
  objective and leaves the same indices, and evaluating again changes nothing.\<close>

theorem calcula_FO_determinismo:
  assumes "alocado P s1" "alocado P s2"
  shows "calcula_FO P s1 n = calcula_FO P s2 n \<and>
     (\<forall>fo s'. calcula_FO P s1 n = Some (fo, s') \<longrightarrow> calcula_FO P s' n = Some (fo, s'))"
proof
  have eq: "calcula_FO P s n = calcula_FO P s' n" if "alocado P s" "alocado P s'" for s s'
    using that by (simp add: calcula_FO_def inicializa_alocado)
  show "calcula_FO P s1 n = calcula_FO P s2 n"
    using assms by (rule eq)
  show "\<forall>fo s'. calcula_FO P s1 n = Some (fo, s') \<longrightarrow> calcula_FO P s' n = Some (fo, s')"
  proof (intro allI impI)
    fix fo s' assume r: "calcula_FO P s1 n = Some (fo, s')"
    then have "alocado P s'" using calcula_FO_efeito assms(1) by blast
    then show "calcula_FO P s' n = Some (fo, s')" using eq [OF assms(1), of s'] r by simp
  qed
qed

theorem calcula_FO_determinismo_witness:
  "alocado P_ex s_lixo \<and> alocado P_ex s_zero \<and>
   calcula_FO P_ex s_lixo g_ex = calcula_FO P_ex s_zero g_ex \<and>
   calcula_FO P_ex s_lixo g_ex = Some (8000025, s_ex) \<and>
   calcula_FO P_ex s_ex g_ex = Some (8000025, s_ex)"
proof -
  have a: "alocado P_ex s_lixo" "alocado P_ex s_zero"
    by (simp_all add: alocado_def P_ex_def s_lixo_def s_zero_def total_periodos_def)
  have e: "calcula_FO P_ex s_lixo g_ex = Some (8000025, s_ex)"
    by code_simp
  from calcula_FO_determinismo [OF a, of g_ex] e a show ?thesis
    by simp
qed

subsection \<open>The seed of R9\<close>

lemma esc2_nth:
  "esc2 m i j x = Some m' \<Longrightarrow> m' ! a ! b = (if int a = i \<and> int b = j then x else m ! a ! b)"
  by (auto simp: esc2_Some nth_list_update)

lemma semeia_celula_nth:
  "semeia_celula P oc i j m = Some m' \<Longrightarrow>
     map length m' = map length m \<and>
     (\<forall>a b. m' ! a ! b =
        (if a = i \<and> b = j \<and> int i < num_profs_da_integral P then oc ! i ! j else m ! a ! b))"
  by (auto simp: semeia_celula_def acessos nth_list_update split: if_splits)

lemma semeia_linha_nth:
  assumes "para k (semeia_celula P oc i) m = Some m'"
  shows "map length m' = map length m \<and>
     (\<forall>a b. m' ! a ! b =
        (if a = i \<and> b < k \<and> int i < num_profs_da_integral P then oc ! i ! b else m ! a ! b))"
  by (rule para_regra [where I = "\<lambda>k m'. map length m' = map length m \<and>
     (\<forall>a b. m' ! a ! b =
        (if a = i \<and> b < k \<and> int i < num_profs_da_integral P then oc ! i ! b else m ! a ! b))",
     OF assms])
    (auto dest!: semeia_celula_nth simp: less_Suc_eq)

lemma semeia_matriz_nth:
  assumes "para k (\<lambda>i. para nd (semeia_celula P oc i)) m = Some m'"
  shows "map length m' = map length m \<and>
     (\<forall>a b. b < nd \<longrightarrow> m' ! a ! b =
        (if a < k \<and> int a < num_profs_da_integral P then oc ! a ! b else m ! a ! b))"
  by (rule para_regra [where I = "\<lambda>k m'. map length m' = map length m \<and>
     (\<forall>a b. b < nd \<longrightarrow> m' ! a ! b =
        (if a < k \<and> int a < num_profs_da_integral P then oc ! a ! b else m ! a ! b))",
     OF assms])
    (auto dest!: semeia_linha_nth simp: less_Suc_eq)

lemma semeia_r9_nth:
  assumes "semeia_r9 P m = Some m'" "t < professores P" "d < dias P"
  shows "m' ! t ! d =
     (case dias_ocupados_integral P of
        Some oc \<Rightarrow> if usar_restricao_integral P \<noteq> 0 \<and> int t < num_profs_da_integral P
                   then oc ! t ! d else m ! t ! d
      | None \<Rightarrow> m ! t ! d)"
  using assms
  by (auto simp: semeia_r9_def split: option.splits if_splits dest!: semeia_matriz_nth)


lemma passo_r9_um:
  "passo_r9 Q i c s = Some s' \<Longrightarrow> r9 s ! t ! d = 1 \<Longrightarrow> r9 s' ! t ! d = 1"
  apply (clarsimp simp: passo_r9_def bind_eq_Some_conv split: if_splits)
  apply (safe?; clarsimp simp: esc2_nth)+
  done

lemma visita_r9_um:
  assumes "visita Q n i j (fo, s) = Some (fo', s')" "r9 s ! t ! d = 1"
  shows "r9 s' ! t ! d = 1"
proof (cases "le2 n (int i) (int j) = Some (-1)")
  case True
  with assms show ?thesis by (simp add: visita_vazia)
next
  case False
  from assms(1) False show ?thesis
  proof (rule visita_passos)
    fix c s1 s2 s3 fo4 s4 s5 pen s6 fo7 s7 fo8 s8 s9 s10
    assume "passo_r1 c s = Some s1" "passo_r21 Q i j c s1 = Some s2" "passo_r22 Q i j c s2 = Some s3"
      "passo_r4 Q i j c (fo, s3) = Some (fo4, s4)" "passo_r5 Q i c s4 = Some s5"
      "restricaoR6 Q n s5 c (int i) (int j) = Some (pen, s6)"
      "passo_r7 Q i j c (c_int (fo4 + pen), s6) = Some (fo7, s7)"
      "passo_r8 Q i j c (fo7, s7) = Some (fo8, s8)" "passo_r9 Q i c s8 = Some s9"
      "passo_r10 Q i j c (fo8, s9) = Some (fo', s10)" "passo_r11 Q i j c s10 = Some s'"
    then show ?thesis
      using passo_r1_efeito [of c s s1] passo_r21_efeito [of Q i j c s1 s2]
        passo_r22_efeito [of Q i j c s2 s3] passo_r4_efeito [of Q i j c fo s3 fo4 s4]
        passo_r5_efeito [of Q i c s4 s5] restricaoR6_efeito [of Q n s5 c "int i" "int j" pen s6]
        passo_r7_efeito [of Q i j c "c_int (fo4 + pen)" s6 fo7 s7] passo_r8_efeito [of Q i j c fo7 s7 fo8 s8]
        passo_r9_um [of Q i c s8 s9 t d] passo_r10_efeito [of Q i j c fo8 s9 fo' s10]
        passo_r11_efeito [of Q i j c s10 s'] assms(2)
      by simp
  qed
qed

lemma percorre_r9_um:
  assumes "percorre Q n a = Some a'" "r9 (snd a) ! t ! d = 1"
  shows "r9 (snd a') ! t ! d = 1"
proof -
  let ?I = "\<lambda>a. r9 (snd a) ! t ! d = 1"
  have passo: "?I u'" if "visita Q n i j u = Some u'" "?I u" for i j u u'
    using visita_r9_um [of Q n i j "fst u" "snd u" "fst u'" "snd u'" t d] that by simp
  have linha: "?I u'" if "para (salas Q) (visita Q n i) u = Some u'" "?I u" for i u u'
    by (rule para_regra [where I = "\<lambda>_. ?I", OF that]) (use passo in auto)
  show ?thesis
    by (rule para_regra [where I = "\<lambda>_. ?I", OF assms [unfolded percorre_def]]) (use linha in auto)
qed

lemma inicializa_r9:
  "inicializa P s = Some s0 \<Longrightarrow> \<exists>m. semeia_r9 P m = Some (r9 s0)"
  by (clarsimp simp: inicializa_def bind_eq_Some_conv) blast



subsection \<open>Partial correctness of defined computations\<close>

lemma quandoD: "quando m Q \<Longrightarrow> m = Some x \<Longrightarrow> Q x"
  by (simp add: quando_def)

lemma quando_Some [simp]: "quando (Some x) Q = Q x"
  by (simp add: quando_def)

lemma quando_None [simp]: "quando None Q"
  by (simp add: quando_def)

lemma quando_bind [simp]: "quando (Option.bind m f) Q = quando m (\<lambda>x. quando (f x) Q)"
  by (cases m) (simp_all add: quando_def)

lemma quando_if [simp]:
  "quando (if c then a else b) Q = ((c \<longrightarrow> quando a Q) \<and> (\<not> c \<longrightarrow> quando b Q))"
  by simp

lemma quando_prod [simp]: "quando (case a of (x, y) \<Rightarrow> f x y) Q = quando (f (fst a) (snd a)) Q"
  by (cases a) simp

lemma quando_let [simp]: "quando (let x = v in f x) Q = quando (f v) Q"
  by simp

lemma quando_le [simp]: "quando (le v i) Q = (0 \<le> i \<and> nat i < length v \<longrightarrow> Q (v ! nat i))"
  by (auto simp: quando_def le_Some)

lemma quando_esc [simp]:
  "quando (esc v i x) Q = (0 \<le> i \<and> nat i < length v \<longrightarrow> Q (v[nat i := x]))"
  by (auto simp: quando_def esc_Some)

lemma quando_le2 [simp]:
  "quando (le2 m i j) Q =
     (0 \<le> i \<and> nat i < length m \<and> 0 \<le> j \<and> nat j < length (m ! nat i) \<longrightarrow> Q (m ! nat i ! nat j))"
  by (auto simp: quando_def le2_Some)

lemma quando_esc2 [simp]:
  "quando (esc2 m i j x) Q =
     (0 \<le> i \<and> nat i < length m \<and> 0 \<le> j \<and> nat j < length (m ! nat i) \<longrightarrow>
        Q (m[nat i := (m ! nat i)[nat j := x]]))"
  by (auto simp: quando_def esc2_Some)

lemma quando_para:
  assumes "I 0 s" and "\<And>i t. i < k \<Longrightarrow> I i t \<Longrightarrow> quando (f i t) (I (Suc i))"
  shows "quando (para k f s) (I k)"
  unfolding quando_def
proof (intro allI impI)
  fix x assume "para k f s = Some x"
  then show "I k x"
    by (rule para_regra [where I = I]) (use assms in \<open>auto simp: quando_def\<close>)
qed

lemma quando_mono: "quando m Q \<Longrightarrow> (\<And>x. Q x \<Longrightarrow> Q' x) \<Longrightarrow> quando m Q'"
  by (simp add: quando_def)

lemma nth2_update:
  "m[i := (m ! i)[j := x]] ! a ! b =
     (if a = i \<and> b = j \<and> i < length m \<and> j < length (m ! i) then x else m ! a ! b)"
  by (cases "i < length m"; cases "j < length (m ! i)")
     (auto simp: nth_list_update list_update_beyond)

subsection \<open>The counters of teachers and curricula per period\<close>

lemma passo_r22_curso_quando:
  "quando (passo_r22_curso Q i j c k s) (\<lambda>s'. r22 s' ! p ! q =
       r22 s ! p ! q + (if p = i \<and> q = k \<and> disc_cursos (disc Q ! nat c) ! k = 1 then 1 else 0))"
  by (simp add: passo_r22_curso_def nth2_update)


lemma passo_r22_nth:
  assumes "passo_r22 Q i j c s = Some s'"
  shows "r22 s' ! p ! q =
       r22 s ! p ! q + (if p = i \<and> q < cursos Q \<and> disc_cursos (disc Q ! nat c) ! q = 1 then 1 else 0)"
proof -
  have "quando (para (cursos Q) (passo_r22_curso Q i j c) s) (\<lambda>s'. r22 s' ! p ! q =
       r22 s ! p ! q + (if p = i \<and> q < cursos Q \<and> disc_cursos (disc Q ! nat c) ! q = 1 then 1 else 0))"
    by (rule quando_para, simp)
       (rule quando_mono [OF passo_r22_curso_quando [where p = p and q = q]], auto simp: less_Suc_eq)
  with assms show ?thesis by (simp add: passo_r22_def quando_def)
qed

lemma passo_r21_nth:
  assumes "passo_r21 Q i j c s = Some s'"
  shows "r21 s' ! p ! t =
       r21 s ! p ! t + (if p = i \<and> disc_prof (disc Q ! nat c) = int t then 1 else 0)"
proof -
  have "quando (passo_r21 Q i j c s) (\<lambda>s'. r21 s' ! p ! t =
       r21 s ! p ! t + (if p = i \<and> disc_prof (disc Q ! nat c) = int t then 1 else 0))"
    by (auto simp add: passo_r21_def nth2_update)
  with assms show ?thesis by (simp add: quando_def)
qed

lemma visita_r2_nth:
  assumes "visita Q n i j (fo, s) = Some (fo', s')"
  shows "r21 s' ! p ! t =
       r21 s ! p ! t +
       (if p = i \<and> n ! i ! j \<noteq> -1 \<and> disc_prof (disc Q ! nat (n ! i ! j)) = int t then 1 else 0)"
    and "r22 s' ! p ! q =
       r22 s ! p ! q +
       (if p = i \<and> q < cursos Q \<and> n ! i ! j \<noteq> -1 \<and>
           disc_cursos (disc Q ! nat (n ! i ! j)) ! q = 1 then 1 else 0)"
proof -
  have "r21 s' ! p ! t =
       r21 s ! p ! t +
       (if p = i \<and> n ! i ! j \<noteq> -1 \<and> disc_prof (disc Q ! nat (n ! i ! j)) = int t then 1 else 0) \<and>
     r22 s' ! p ! q =
       r22 s ! p ! q +
       (if p = i \<and> q < cursos Q \<and> n ! i ! j \<noteq> -1 \<and>
           disc_cursos (disc Q ! nat (n ! i ! j)) ! q = 1 then 1 else 0)"
  proof (cases "le2 n (int i) (int j) = Some (-1)")
    case True
    then have "n ! i ! j = -1" by (simp add: le2_Some)
    with True assms show ?thesis by (simp add: visita_vazia)
  next
    case False
    from assms False show ?thesis
    proof (rule visita_passos)
      fix c s1 s2 s3 fo4 s4 s5 pen s6 fo7 s7 fo8 s8 s9 s10
      assume c: "le2 n (int i) (int j) = Some c" "c \<noteq> -1"
        and "passo_r1 c s = Some s1" "passo_r21 Q i j c s1 = Some s2" "passo_r22 Q i j c s2 = Some s3"
        "passo_r4 Q i j c (fo, s3) = Some (fo4, s4)" "passo_r5 Q i c s4 = Some s5"
        "restricaoR6 Q n s5 c (int i) (int j) = Some (pen, s6)"
        "passo_r7 Q i j c (c_int (fo4 + pen), s6) = Some (fo7, s7)"
        "passo_r8 Q i j c (fo7, s7) = Some (fo8, s8)" "passo_r9 Q i c s8 = Some s9"
        "passo_r10 Q i j c (fo8, s9) = Some (fo', s10)" "passo_r11 Q i j c s10 = Some s'"
      moreover from c have "n ! i ! j = c" by (simp add: le2_Some)
      ultimately show ?thesis
        using passo_r1_efeito [of c s s1] passo_r21_efeito [of Q i j c s1 s2]
          passo_r21_nth [of Q i j c s1 s2 p t] passo_r22_nth [of Q i j c s2 s3 p q]
          passo_r22_efeito [of Q i j c s2 s3] passo_r4_efeito [of Q i j c fo s3 fo4 s4]
          passo_r5_efeito [of Q i c s4 s5] restricaoR6_efeito [of Q n s5 c "int i" "int j" pen s6]
          passo_r7_efeito [of Q i j c "c_int (fo4 + pen)" s6 fo7 s7] passo_r8_efeito [of Q i j c fo7 s7 fo8 s8]
          passo_r9_efeito [of Q i c s8 s9] passo_r10_efeito [of Q i j c fo8 s9 fo' s10]
          passo_r11_efeito [of Q i j c s10 s']
        by simp
    qed
  qed
  then show "r21 s' ! p ! t =
       r21 s ! p ! t +
       (if p = i \<and> n ! i ! j \<noteq> -1 \<and> disc_prof (disc Q ! nat (n ! i ! j)) = int t then 1 else 0)"
    and "r22 s' ! p ! q =
       r22 s ! p ! q +
       (if p = i \<and> q < cursos Q \<and> n ! i ! j \<noteq> -1 \<and>
           disc_cursos (disc Q ! nat (n ! i ! j)) ! q = 1 then 1 else 0)"
    by simp_all
qed

lemma linha_r2_nth:
  assumes "para k (visita Q n i) a = Some a'"
  shows "r21 (snd a') ! p ! t = r21 (snd a) ! p ! t + (if p = i then int (conta_prof Q n i t k) else 0) \<and>
     r22 (snd a') ! p ! q =
       r22 (snd a) ! p ! q + (if p = i \<and> q < cursos Q then int (conta_curso Q n i q k) else 0)"
proof (rule para_regra [where I = "\<lambda>k a'.
     r21 (snd a') ! p ! t = r21 (snd a) ! p ! t + (if p = i then int (conta_prof Q n i t k) else 0) \<and>
     r22 (snd a') ! p ! q =
       r22 (snd a) ! p ! q + (if p = i \<and> q < cursos Q then int (conta_curso Q n i q k) else 0)",
     OF assms])
  show "r21 (snd a) ! p ! t = r21 (snd a) ! p ! t + (if p = i then int (conta_prof Q n i t 0) else 0) \<and>
     r22 (snd a) ! p ! q =
       r22 (snd a) ! p ! q + (if p = i \<and> q < cursos Q then int (conta_curso Q n i q 0) else 0)"
    by (simp add: conta_prof_def conta_curso_def)
next
  fix j u u'
  assume I: "r21 (snd u) ! p ! t = r21 (snd a) ! p ! t + (if p = i then int (conta_prof Q n i t j) else 0) \<and>
     r22 (snd u) ! p ! q =
       r22 (snd a) ! p ! q + (if p = i \<and> q < cursos Q then int (conta_curso Q n i q j) else 0)"
    and v: "visita Q n i j u = Some u'"
  from v have "visita Q n i j (fst u, snd u) = Some (fst u', snd u')" by simp
  from visita_r2_nth(1) [OF this, of p t] visita_r2_nth(2) [OF this, of p q] I
  show "r21 (snd u') ! p ! t = r21 (snd a) ! p ! t + (if p = i then int (conta_prof Q n i t (Suc j)) else 0) \<and>
     r22 (snd u') ! p ! q =
       r22 (snd a) ! p ! q + (if p = i \<and> q < cursos Q then int (conta_curso Q n i q (Suc j)) else 0)"
    by (simp add: conta_prof_def conta_curso_def)
qed

lemma percorre_r2_nth:
  assumes "percorre Q n a = Some a'"
  shows "r21 (snd a') ! p ! t =
       r21 (snd a) ! p ! t + (if p < total_periodos Q then int (conta_prof Q n p t (salas Q)) else 0) \<and>
     r22 (snd a') ! p ! q =
       r22 (snd a) ! p ! q +
       (if p < total_periodos Q \<and> q < cursos Q then int (conta_curso Q n p q (salas Q)) else 0)"
  by (rule para_regra [where I = "\<lambda>k a'. r21 (snd a') ! p ! t =
       r21 (snd a) ! p ! t + (if p < k then int (conta_prof Q n p t (salas Q)) else 0) \<and>
     r22 (snd a') ! p ! q =
       r22 (snd a) ! p ! q +
       (if p < k \<and> q < cursos Q then int (conta_curso Q n p q (salas Q)) else 0)",
     OF assms [unfolded percorre_def]])
    (auto dest!: linha_r2_nth [where p = p and t = t and q = q] simp: less_Suc_eq)


subsection \<open>The counter of conflicts\<close>

lemma pos_r21_quando:
  "quando (pos_r21 i j u) (\<lambda>u'. r21 (snd u') = r21 (snd u) \<and> r22 (snd u') = r22 (snd u) \<and>
     (\<forall>a b. restricoes_violadas (snd u) ! 2 = codifica a b \<longrightarrow>
        restricoes_violadas (snd u') ! 2 =
          codifica (a + (if 1 < r21 (snd u) ! i ! j then 1 else 0)) b))"
  by (simp add: pos_r21_def conflito_r2_def codifica_def)

lemma pos_r22_quando:
  "quando (pos_r22 i j u) (\<lambda>u'. r21 (snd u') = r21 (snd u) \<and> r22 (snd u') = r22 (snd u) \<and>
     (\<forall>a b. restricoes_violadas (snd u) ! 2 = codifica a b \<longrightarrow>
        restricoes_violadas (snd u') ! 2 =
          codifica a (b + (if 1 < r22 (snd u) ! i ! j then 1 else 0))))"
  by (simp add: pos_r22_def conflito_r2_def codifica_def)

lemma pos_r21_laco:
  "quando (para k (pos_r21 i) u) (\<lambda>u'. r21 (snd u') = r21 (snd u) \<and> r22 (snd u') = r22 (snd u) \<and>
     (\<forall>a b. restricoes_violadas (snd u) ! 2 = codifica a b \<longrightarrow>
        restricoes_violadas (snd u') ! 2 =
          codifica (a + length [t \<leftarrow> [0..<k]. 1 < r21 (snd u) ! i ! t]) b))"
  by (rule quando_para, simp) (rule quando_mono [OF pos_r21_quando], simp)

lemma pos_r22_laco:
  "quando (para k (pos_r22 i) u) (\<lambda>u'. r21 (snd u') = r21 (snd u) \<and> r22 (snd u') = r22 (snd u) \<and>
     (\<forall>a b. restricoes_violadas (snd u) ! 2 = codifica a b \<longrightarrow>
        restricoes_violadas (snd u') ! 2 =
          codifica a (b + length [t \<leftarrow> [0..<k]. 1 < r22 (snd u) ! i ! t])))"
  by (rule quando_para, simp) (rule quando_mono [OF pos_r22_quando], simp)

lemma pos_r2_periodo_quando:
  "quando (pos_r2_periodo Q i u) (\<lambda>u'. r21 (snd u') = r21 (snd u) \<and> r22 (snd u') = r22 (snd u) \<and>
     (\<forall>a b. restricoes_violadas (snd u) ! 2 = codifica a b \<longrightarrow>
        restricoes_violadas (snd u') ! 2 =
          codifica (a + length [t \<leftarrow> [0..<professores Q]. 1 < r21 (snd u) ! i ! t])
                   (b + length [t \<leftarrow> [0..<cursos Q]. 1 < r22 (snd u) ! i ! t])))"
  unfolding pos_r2_periodo_def quando_bind
  apply (rule quando_mono [OF pos_r21_laco])
  apply (rule quando_mono [OF pos_r22_laco])
  apply simp
  done

lemma pos_r2_quando:
  "quando (pos_r2 Q u) (\<lambda>u'. r21 (snd u') = r21 (snd u) \<and> r22 (snd u') = r22 (snd u) \<and>
     (\<forall>a b. restricoes_violadas (snd u) ! 2 = codifica a b \<longrightarrow>
        restricoes_violadas (snd u') ! 2 =
          codifica (a + (\<Sum>p \<leftarrow> [0..<total_periodos Q].
                           length [t \<leftarrow> [0..<professores Q]. 1 < r21 (snd u) ! p ! t]))
                   (b + (\<Sum>p \<leftarrow> [0..<total_periodos Q].
                           length [t \<leftarrow> [0..<cursos Q]. 1 < r22 (snd u) ! p ! t]))))"
  unfolding pos_r2_def
  apply (rule quando_mono [where Q = "\<lambda>u'. r21 (snd u') = r21 (snd u) \<and> r22 (snd u') = r22 (snd u) \<and>
     (\<forall>a b. restricoes_violadas (snd u) ! 2 = codifica a b \<longrightarrow>
        restricoes_violadas (snd u') ! 2 =
          codifica (a + (\<Sum>p \<leftarrow> [0..<total_periodos Q].
                           length [t \<leftarrow> [0..<professores Q]. 1 < r21 (snd u) ! p ! t]))
                   (b + (\<Sum>p \<leftarrow> [0..<total_periodos Q].
                           length [t \<leftarrow> [0..<cursos Q]. 1 < r22 (snd u) ! p ! t])))"])
   apply (rule quando_para [where I = "\<lambda>k u'. r21 (snd u') = r21 (snd u) \<and> r22 (snd u') = r22 (snd u) \<and>
     (\<forall>a b. restricoes_violadas (snd u) ! 2 = codifica a b \<longrightarrow>
        restricoes_violadas (snd u') ! 2 =
          codifica (a + (\<Sum>p \<leftarrow> [0..<k].
                           length [t \<leftarrow> [0..<professores Q]. 1 < r21 (snd u) ! p ! t]))
                   (b + (\<Sum>p \<leftarrow> [0..<k].
                           length [t \<leftarrow> [0..<cursos Q]. 1 < r22 (snd u) ! p ! t])))"])
    apply simp
   apply (rule quando_mono [OF pos_r2_periodo_quando])
   apply (simp add: add.assoc)
  apply simp
  done


lemma inicializa_zero:
  assumes "inicializa P s = Some s0" "alocado P s"
  shows "r21 s0 = replicate (total_periodos P) (replicate (professores P) 0)"
    and "r22 s0 = replicate (total_periodos P) (replicate (cursos P) 0)"
    and "restricoes_violadas s0 = replicate 12 (-1)"
  using assms by (auto simp: inicializa_alocado bind_eq_Some_conv)



subsection \<open>The empty grid\<close>

lemma c_int_soma [simp]:
  "c_int (c_int a + b) = c_int (a + b)" "c_int (a + c_int b) = c_int (a + b)"
  by (simp_all add: c_int_def mod_simps ac_simps)

lemma c_int_c_int [simp]: "c_int (c_int a) = c_int a"
  using c_int_soma(1) [of a 0] by simp

lemma c_int_zero [simp]: "c_int 0 = 0"
  by (simp add: c_int_def)

lemma c_int_limites: "- 2147483648 \<le> c_int x \<and> c_int x \<le> 2147483647"
proof -
  have "0 \<le> (x + 2147483648) mod 4294967296" "(x + 2147483648) mod 4294967296 < 4294967296"
    by simp_all
  then show ?thesis
    unfolding c_int_def by linarith
qed

lemma c_int_exato: "- 2147483648 \<le> x \<Longrightarrow> x \<le> 2147483647 \<Longrightarrow> c_int x = x"
  by (simp add: c_int_def)

lemma visita_criaMatriz:
  "i < total_periodos P \<Longrightarrow> j < salas P \<Longrightarrow> visita P (criaMatriz P) i j a = Some a"
  by (rule visita_vazia) (simp add: criaMatriz_def)

lemma percorre_criaMatriz: "percorre P (criaMatriz P) a = Some a"
proof -
  have linha: "para k (visita P (criaMatriz P) i) a = Some a"
    if "i < total_periodos P" "k \<le> salas P" for i k a
    using that by (induction k) (simp_all add: visita_criaMatriz)
  have "para k (\<lambda>i. para (salas P) (visita P (criaMatriz P) i)) a = Some a"
    if "k \<le> total_periodos P" for k
    using that by (induction k) (simp_all add: linha)
  then show ?thesis by (simp add: percorre_def)
qed

lemma conta_dias_quando:
  "quando (conta_dias m i k) (\<lambda>a. a = int (length [j \<leftarrow> [0..<k]. 0 < m ! i ! j]))"
  unfolding conta_dias_def
  by (rule quando_para, simp) (simp add: conta_dia_def)


lemma quando_conta_dias:
  "quando (conta_dias m i k) Q \<longleftrightarrow>
     conta_dias m i k = None \<or> Q (int (length [j \<leftarrow> [0..<k]. 0 < m ! i ! j]))"
  using conta_dias_quando [of m i k] by (cases "conta_dias m i k") (auto simp: quando_def)

lemma pos_r2_zero:
  assumes "r21 (snd u) = replicate (total_periodos P) (replicate (professores P) 0)"
    and "r22 (snd u) = replicate (total_periodos P) (replicate (cursos P) 0)"
  shows "quando (pos_r2 P u) (\<lambda>u'. u' = u)"
proof -
  have p: "quando (para k (pos_r21 i) u) (\<lambda>u'. u' = u)"
    if "i < total_periodos P" "k \<le> professores P" for i k
    by (rule quando_para, simp) (use assms that in \<open>simp add: pos_r21_def conflito_r2_def\<close>)
  have q: "quando (para k (pos_r22 i) u) (\<lambda>u'. u' = u)"
    if "i < total_periodos P" "k \<le> cursos P" for i k
    by (rule quando_para, simp) (use assms that in \<open>simp add: pos_r22_def conflito_r2_def\<close>)
  have per: "quando (pos_r2_periodo P i u) (\<lambda>u'. u' = u)" if "i < total_periodos P" for i
    unfolding pos_r2_periodo_def quando_bind
    by (rule quando_mono [OF p [OF that order_refl]]) (simp add: q [OF that order_refl])
  show ?thesis
    unfolding pos_r2_def by (rule quando_para [where I = "\<lambda>_ u'. u' = u"]) (simp_all add: per)
qed

lemma pos_r11_zero:
  assumes "r11 (snd u) = replicate (dias P) (replicate (disciplinas P) 0)"
  shows "quando (pos_r11 P u) (\<lambda>u'. u' = u)"
proof -
  have dia: "quando (para k (pos_r11_disc i) u) (\<lambda>u'. u' = u)"
    if "i < dias P" "k \<le> disciplinas P" for i k
    by (rule quando_para, simp) (use assms that in \<open>simp add: pos_r11_disc_def\<close>)
  show ?thesis
    unfolding pos_r11_def by (rule quando_para [where I = "\<lambda>_ u'. u' = u"]) (simp_all add: dia)
qed

lemma pos_r1_r5_zero:
  assumes "r1 (snd u) = replicate (disciplinas P) 0"
    and "r5 (snd u) = replicate (disciplinas P) (replicate (dias P) 0)"
    and "c_int (fst u) = fst u"
  shows "quando (pos_r1_r5 P u) (\<lambda>u'.
     fst u' = c_int (fst u + (\<Sum>i \<leftarrow> [0..<disciplinas P].
        1000000 * \<bar>disc_aulas (disc P ! i)\<bar> + 5 * max 0 (disc_minDias (disc P ! i)))) \<and>
     r9 (snd u') = r9 (snd u) \<and> r11 (snd u') = r11 (snd u))"
  unfolding pos_r1_r5_def
  by (rule quando_para [where I = "\<lambda>k u'.
     fst u' = c_int (fst u + (\<Sum>i \<leftarrow> [0..<k].
        1000000 * \<bar>disc_aulas (disc P ! i)\<bar> + 5 * max 0 (disc_minDias (disc P ! i)))) \<and>
     r1 (snd u') = r1 (snd u) \<and> r5 (snd u') = r5 (snd u) \<and>
     r9 (snd u') = r9 (snd u) \<and> r11 (snd u') = r11 (snd u)", THEN quando_mono])
    (use assms in \<open>auto simp: pos_r1_r5_disc_def quando_conta_dias modulo_def filter_empty_conv
       add.assoc\<close>)

lemma pos_r9_soma:
  assumes "c_int (fst u) = fst u"
  shows "quando (pos_r9 P u) (\<lambda>u'.
     fst u' = c_int (fst u + (\<Sum>t \<leftarrow> [0..<professores P].
        5 * max 0 (int (length [d \<leftarrow> [0..<dias P]. 0 < r9 (snd u) ! t ! d]) - 2))) \<and>
     r11 (snd u') = r11 (snd u))"
  unfolding pos_r9_def
  by (rule quando_para [where I = "\<lambda>k u'.
     fst u' = c_int (fst u + (\<Sum>t \<leftarrow> [0..<k].
        5 * max 0 (int (length [d \<leftarrow> [0..<dias P]. 0 < r9 (snd u) ! t ! d]) - 2))) \<and>
     r9 (snd u') = r9 (snd u) \<and> r11 (snd u') = r11 (snd u)", THEN quando_mono])
    (use assms in \<open>auto simp: pos_r9_prof_def quando_conta_dias add.assoc\<close>)


lemma inicializa_campos:
  assumes "inicializa P s = Some s0" "alocado P s"
  shows "r1 s0 = replicate (disciplinas P) 0"
    and "r5 s0 = replicate (disciplinas P) (replicate (dias P) 0)"
    and "r11 s0 = replicate (dias P) (replicate (disciplinas P) 0)"
    and "semeia_r9 P (replicate (professores P) (replicate (dias P) 0)) = Some (r9 s0)"
  using assms by (auto simp: inicializa_alocado bind_eq_Some_conv)

lemma dias_semeados_r9:
  assumes "semeia_r9 P (replicate (professores P) (replicate (dias P) 0)) = Some m"
    and "t < professores P"
  shows "length [d \<leftarrow> [0..<dias P]. 0 < m ! t ! d] = dias_semeados P t"
proof -
  have "m ! t ! d =
     (case dias_ocupados_integral P of
        Some oc \<Rightarrow> if usar_restricao_integral P \<noteq> 0 \<and> int t < num_profs_da_integral P
                   then oc ! t ! d else 0
      | None \<Rightarrow> 0)" if "d < dias P" for d
    using semeia_r9_nth [OF assms(1,2) that] assms(2) that by (simp split: option.splits)
  then have "[d \<leftarrow> [0..<dias P]. 0 < m ! t ! d] =
     [d \<leftarrow> [0..<dias P]. 0 < (case dias_ocupados_integral P of
        Some oc \<Rightarrow> if usar_restricao_integral P \<noteq> 0 \<and> int t < num_profs_da_integral P
                   then oc ! t ! d else 0
      | None \<Rightarrow> 0)]"
    by (intro filter_cong) simp_all
  then show ?thesis
    by (simp add: dias_semeados_def split: option.splits)
qed




subsection \<open>The neighbourhood keeps the lectures\<close>

text \<open>Every write of \<open>geraViz\<close> into the grid is part of a swap of two cells or of
  a move of a cell into an empty one. So a call in which every subscript stays inside
  its array, which is a call for which the model has a result, keeps the multiset of the
  contents of the cells and the lengths of the rows (\<open>geraViz_conserva\<close> below).\<close>

lemma conserva_refl: "conserva n n"
  by (simp add: conserva_def)

lemma conserva_trans: "conserva a b \<Longrightarrow> conserva b c \<Longrightarrow> conserva a c"
  by (simp add: conserva_def)

lemma mset_concat_update:
  assumes "i < length m" "j < length (m ! i)"
  shows "add_mset (m ! i ! j) (mset (concat (m[i := (m ! i)[j := x]]))) = add_mset x (mset (concat m))"
proof -
  have m: "m = take i m @ (m ! i) # drop (Suc i) m"
    using assms(1) by (simp add: id_take_nth_drop)
  have u: "m[i := (m ! i)[j := x]] = take i m @ (m ! i)[j := x] # drop (Suc i) m"
    using assms(1) by (simp add: upd_conv_take_nth_drop)
  have "add_mset (m ! i ! j) (mset ((m ! i)[j := x])) = add_mset x (mset (m ! i))"
    using assms(2) by (simp add: mset_update)
  then have "add_mset (m ! i ! j) (mset (concat (take i m @ (m ! i)[j := x] # drop (Suc i) m)))
     = add_mset x (mset (concat (take i m @ (m ! i) # drop (Suc i) m)))"
    by (simp add: union_assoc [symmetric])
  then show ?thesis
    using m u by simp
qed

lemma esc2_mset:
  "esc2 m i j x = Some m' \<Longrightarrow>
     add_mset (m ! nat i ! nat j) (mset (concat m')) = add_mset x (mset (concat m))"
  by (auto simp: esc2_Some mset_concat_update)

lemma troca_conserva: "troca n i j k l = Some n' \<Longrightarrow> conserva n n'"
proof -
  assume t: "troca n i j k l = Some n'"
  then obtain n1 where a: "le2 n i j = Some (n ! nat i ! nat j)" "le2 n k l = Some (n ! nat k ! nat l)"
    and w1: "esc2 n i j (n ! nat k ! nat l) = Some n1"
    and w2: "esc2 n1 k l (n ! nat i ! nat j) = Some n'"
    by (auto simp: troca_def bind_eq_Some_conv le2_Some)
  from a have p: "0 \<le> i" "0 \<le> j" "0 \<le> k" "0 \<le> l"
    by (simp_all add: le2_Some)
  have c: "n1 ! nat k ! nat l = n ! nat k ! nat l"
    using esc2_nth [OF w1, of "nat k" "nat l"] p by simp
  have "add_mset (n ! nat i ! nat j) (add_mset (n1 ! nat k ! nat l) (mset (concat n')))
      = add_mset (n ! nat i ! nat j) (add_mset (n ! nat k ! nat l) (mset (concat n)))"
    using esc2_mset [OF w1] esc2_mset [OF w2] by (simp add: add_mset_commute)
  then have "mset (concat n') = mset (concat n)"
    using c by simp
  then show ?thesis
    using esc2_forma [OF w1] esc2_forma [OF w2] by (simp add: conserva_def)
qed

lemma muda_conserva:
  assumes v: "le2 n k l = Some (-1)" and t: "muda n per sal k l = Some n'"
  shows "conserva n n'"
proof -
  from t obtain n1 where a: "le2 n per sal = Some (n ! nat per ! nat sal)"
    and w1: "esc2 n per sal (-1) = Some n1"
    and w2: "esc2 n1 k l (n ! nat per ! nat sal) = Some n'"
    by (auto simp: muda_def bind_eq_Some_conv le2_Some)
  from v have c0: "n ! nat k ! nat l = -1" and p: "0 \<le> k" "0 \<le> l"
    by (simp_all add: le2_Some)
  have c: "n1 ! nat k ! nat l = -1"
    using esc2_nth [OF w1, of "nat k" "nat l"] c0 by simp
  have "add_mset (n ! nat per ! nat sal) (add_mset (n1 ! nat k ! nat l) (mset (concat n')))
      = add_mset (n ! nat per ! nat sal) (add_mset (-1) (mset (concat n)))"
    using esc2_mset [OF w1] esc2_mset [OF w2] by (simp add: add_mset_commute)
  then have "mset (concat n') = mset (concat n)"
    using c by simp
  then show ?thesis
    using esc2_forma [OF w1] esc2_forma [OF w2] by (simp add: conserva_def)
qed

lemma leva_conserva:
  assumes v: "le2 n k l = Some (-1)" and t: "leva n per sal k l = Some n'"
  shows "conserva n n'"
proof -
  from t obtain n1 where a: "le2 n per sal = Some (n ! nat per ! nat sal)"
    and w1: "esc2 n k l (n ! nat per ! nat sal) = Some n1"
    and w2: "esc2 n1 per sal (-1) = Some n'"
    by (auto simp: leva_def bind_eq_Some_conv le2_Some)
  from v have c0: "n ! nat k ! nat l = -1" and p: "0 \<le> k" "0 \<le> l"
    by (simp_all add: le2_Some)
  from a have q: "0 \<le> per" "0 \<le> sal"
    by (simp_all add: le2_Some)
  have c: "n1 ! nat per ! nat sal = n ! nat per ! nat sal"
    using esc2_nth [OF w1, of "nat per" "nat sal"] p q c0 by auto
  have "add_mset (-1) (add_mset (n1 ! nat per ! nat sal) (mset (concat n')))
      = add_mset (-1) (add_mset (n ! nat per ! nat sal) (mset (concat n)))"
    using esc2_mset [OF w1] esc2_mset [OF w2] c0 by (simp add: add_mset_commute)
  then have "mset (concat n') = mset (concat n)"
    using c by simp
  then show ?thesis
    using esc2_forma [OF w1] esc2_forma [OF w2] by (simp add: conserva_def)
qed

declare trocas_livres.simps [simp del] trocas_periodo.simps [simp del] trocas_sala.simps [simp del]
  outro_dia.simps [simp del] destino_r9.simps [simp del] destino_r11.simps [simp del]

lemma trocas_livres_conserva:
  "trocas_livres P aux n rs = Some (n', rs') \<Longrightarrow> conserva n n'"
proof (induction rs arbitrary: aux n rule: length_induct)
  case (1 rs)
  have IH: "\<And>a m t. trocas_livres P a m t = Some (n', rs') \<Longrightarrow> length t < length rs \<Longrightarrow> conserva m n'"
    using 1(1) by blast
  have passo: "\<And>i j k l n1 a t. troca n i j k l = Some n1 \<Longrightarrow>
      trocas_livres P a n1 t = Some (n', rs') \<Longrightarrow> length t < length rs \<Longrightarrow> conserva n n'"
    by (blast intro: conserva_trans troca_conserva IH)
  from 1(2) show ?case
    by (subst (asm) trocas_livres.simps)
       (auto simp: Let_def bind_eq_Some_conv conserva_refl split: if_splits list.splits
          intro: passo IH)
qed

lemma trocas_periodo_conserva:
  "trocas_periodo P aux n rs = Some (n', rs') \<Longrightarrow> conserva n n'"
proof (induction rs arbitrary: aux n rule: length_induct)
  case (1 rs)
  have IH: "\<And>a m t. trocas_periodo P a m t = Some (n', rs') \<Longrightarrow> length t < length rs \<Longrightarrow> conserva m n'"
    using 1(1) by blast
  have passo: "\<And>i j k l n1 a t. troca n i j k l = Some n1 \<Longrightarrow>
      trocas_periodo P a n1 t = Some (n', rs') \<Longrightarrow> length t < length rs \<Longrightarrow> conserva n n'"
    by (blast intro: conserva_trans troca_conserva IH)
  from 1(2) show ?case
    by (subst (asm) trocas_periodo.simps)
       (auto simp: Let_def bind_eq_Some_conv conserva_refl split: if_splits list.splits
          intro: passo IH)
qed

lemma trocas_sala_conserva:
  "trocas_sala P aux n rs = Some (n', rs') \<Longrightarrow> conserva n n'"
proof (induction rs arbitrary: aux n rule: length_induct)
  case (1 rs)
  have IH: "\<And>a m t. trocas_sala P a m t = Some (n', rs') \<Longrightarrow> length t < length rs \<Longrightarrow> conserva m n'"
    using 1(1) by blast
  have passo: "\<And>i j k l n1 a t. troca n i j k l = Some n1 \<Longrightarrow>
      trocas_sala P a n1 t = Some (n', rs') \<Longrightarrow> length t < length rs \<Longrightarrow> conserva n n'"
    by (blast intro: conserva_trans troca_conserva IH)
  from 1(2) show ?case
    by (subst (asm) trocas_sala.simps)
       (auto simp: Let_def bind_eq_Some_conv conserva_refl split: if_splits list.splits
          intro: passo IH)
qed

lemma mov_aleatorio_conserva: "mov_aleatorio P T n rs = Some (n', rs') \<Longrightarrow> conserva n n'"
  by (auto simp: mov_aleatorio_def split: list.splits dest: trocas_livres_conserva)

lemma mov_periodo_conserva: "mov_periodo P T n rs = Some (n', rs') \<Longrightarrow> conserva n n'"
  by (auto simp: mov_periodo_def split: list.splits dest: trocas_periodo_conserva)

lemma mov_sala_conserva: "mov_sala P T n rs = Some (n', rs') \<Longrightarrow> conserva n n'"
  by (auto simp: mov_sala_def split: list.splits dest: trocas_sala_conserva)

lemma destino_r21_conserva:
  "destino_r21 P s per sal n rs = Some (n', rs') \<Longrightarrow> conserva n n'"
proof (induction rs arbitrary: n rule: length_induct)
  case (1 rs)
  have IH: "\<And>m t. destino_r21 P s per sal m t = Some (n', rs') \<Longrightarrow> length t < length rs \<Longrightarrow> conserva m n'"
    using 1(1) by blast
  have troca1: "\<And>i j k l n1 t. troca n i j k l = Some n1 \<Longrightarrow>
      destino_r21 P s per sal n1 t = Some (n', rs') \<Longrightarrow> length t < length rs \<Longrightarrow> conserva n n'"
    by (blast intro: conserva_trans troca_conserva IH)
  have muda1: "\<And>a b k l n1 t. le2 n k l = Some (-1) \<Longrightarrow> muda n a b k l = Some n1 \<Longrightarrow>
      destino_r21 P s per sal n1 t = Some (n', rs') \<Longrightarrow> length t < length rs \<Longrightarrow> conserva n n'"
    by (blast intro: conserva_trans muda_conserva IH)
  show ?case
  proof (cases rs)
    case Nil
    with 1(2) show ?thesis by simp
  next
    case (Cons v1 r1)
    show ?thesis
    proof (cases r1)
      case Nil
      with Cons 1(2) show ?thesis by simp
    next
      case (Cons v2 r2)
      with \<open>rs = v1 # r1\<close> 1(2) show ?thesis
        by (auto simp: Let_def bind_eq_Some_conv split: if_splits
              intro: troca1 muda1 IH muda_conserva troca_conserva)
    qed
  qed
qed

lemma destino_r22_conserva:
  "destino_r22 P per sal n rs = Some (n', rs') \<Longrightarrow> conserva n n'"
proof (induction rs arbitrary: n  rule: length_induct)
  case (1 rs)
  have IH: "\<And>m t . destino_r22 P per sal m t = Some (n', rs') \<Longrightarrow> length t < length rs \<Longrightarrow> conserva m n'"
    using 1(1) by blast
  have troca1: "\<And>i j k l n1 t . troca n i j k l = Some n1 \<Longrightarrow>
      destino_r22 P per sal n1 t = Some (n', rs') \<Longrightarrow> length t < length rs \<Longrightarrow> conserva n n'"
    by (blast intro: conserva_trans troca_conserva IH)
  have muda1: "\<And>a b k l n1 t . le2 n k l = Some (-1) \<Longrightarrow> muda n a b k l = Some n1 \<Longrightarrow>
      destino_r22 P per sal n1 t = Some (n', rs') \<Longrightarrow> length t < length rs \<Longrightarrow> conserva n n'"
    by (blast intro: conserva_trans muda_conserva IH)
  show ?case
  proof (cases rs)
    case Nil
    with 1(2) show ?thesis by simp
  next
    case (Cons v1 r1)
    show ?thesis
    proof (cases r1)
      case Nil
      with Cons 1(2) show ?thesis by simp
    next
      case (Cons v2 r2)
      with \<open>rs = v1 # r1\<close> 1(2) show ?thesis
        by (auto simp: Let_def bind_eq_Some_conv conserva_refl split: if_splits list.splits
              intro: troca1 muda1 IH muda_conserva troca_conserva leva_conserva)
    qed
  qed
qed

lemma destino_r6_conserva:
  "destino_r6 P tent r6_i r6_j n mm aux3 rs = Some (n', m', rs') \<Longrightarrow> conserva n n'"
proof (induction rs arbitrary: n mm aux3 rule: length_induct)
  case (1 rs)
  have IH: "\<And>m t m2 a3. destino_r6 P tent r6_i r6_j m m2 a3 t = Some (n', m', rs') \<Longrightarrow> length t < length rs \<Longrightarrow> conserva m n'"
    using 1(1) by blast
  have troca1: "\<And>i j k l n1 t m2 a3. troca n i j k l = Some n1 \<Longrightarrow>
      destino_r6 P tent r6_i r6_j n1 m2 a3 t = Some (n', m', rs') \<Longrightarrow> length t < length rs \<Longrightarrow> conserva n n'"
    by (blast intro: conserva_trans troca_conserva IH)
  have muda1: "\<And>a b k l n1 t m2 a3. le2 n k l = Some (-1) \<Longrightarrow> muda n a b k l = Some n1 \<Longrightarrow>
      destino_r6 P tent r6_i r6_j n1 m2 a3 t = Some (n', m', rs') \<Longrightarrow> length t < length rs \<Longrightarrow> conserva n n'"
    by (blast intro: conserva_trans muda_conserva IH)
  show ?case
  proof (cases rs)
    case Nil
    with 1(2) show ?thesis by simp
  next
    case (Cons v1 r1)
    show ?thesis
    proof (cases r1)
      case Nil
      with Cons 1(2) show ?thesis by simp
    next
      case (Cons v2 r2)
      with \<open>rs = v1 # r1\<close> 1(2) show ?thesis
        by (auto simp: Let_def bind_eq_Some_conv conserva_refl split: if_splits list.splits
              intro: troca1 muda1 IH muda_conserva troca_conserva leva_conserva)
    qed
  qed
qed

lemma destino_r7_conserva:
  "destino_r7 P s tent aux per sal n aux3 rs = Some (n', rs') \<Longrightarrow> conserva n n'"
proof (induction rs arbitrary: n aux3 rule: length_induct)
  case (1 rs)
  have IH: "\<And>m t a3. destino_r7 P s tent aux per sal m a3 t = Some (n', rs') \<Longrightarrow> length t < length rs \<Longrightarrow> conserva m n'"
    using 1(1) by blast
  have troca1: "\<And>i j k l n1 t a3. troca n i j k l = Some n1 \<Longrightarrow>
      destino_r7 P s tent aux per sal n1 a3 t = Some (n', rs') \<Longrightarrow> length t < length rs \<Longrightarrow> conserva n n'"
    by (blast intro: conserva_trans troca_conserva IH)
  have muda1: "\<And>a b k l n1 t a3. le2 n k l = Some (-1) \<Longrightarrow> muda n a b k l = Some n1 \<Longrightarrow>
      destino_r7 P s tent aux per sal n1 a3 t = Some (n', rs') \<Longrightarrow> length t < length rs \<Longrightarrow> conserva n n'"
    by (blast intro: conserva_trans muda_conserva IH)
  show ?case
  proof (cases rs)
    case Nil
    with 1(2) show ?thesis by simp
  next
    case (Cons v1 r1)
    show ?thesis
    proof (cases r1)
      case Nil
      with Cons 1(2) show ?thesis by simp
    next
      case (Cons v2 r2)
      with \<open>rs = v1 # r1\<close> 1(2) show ?thesis
        by (auto simp: Let_def bind_eq_Some_conv conserva_refl split: if_splits list.splits
              intro: troca1 muda1 IH muda_conserva troca_conserva leva_conserva)
    qed
  qed
qed

lemma destino_r8_conserva:
  "destino_r8 P s tent per sal n aux3 rs = Some (n', rs') \<Longrightarrow> conserva n n'"
proof (induction rs arbitrary: n aux3 rule: length_induct)
  case (1 rs)
  have IH: "\<And>m t a3. destino_r8 P s tent per sal m a3 t = Some (n', rs') \<Longrightarrow> length t < length rs \<Longrightarrow> conserva m n'"
    using 1(1) by blast
  have troca1: "\<And>i j k l n1 t a3. troca n i j k l = Some n1 \<Longrightarrow>
      destino_r8 P s tent per sal n1 a3 t = Some (n', rs') \<Longrightarrow> length t < length rs \<Longrightarrow> conserva n n'"
    by (blast intro: conserva_trans troca_conserva IH)
  have muda1: "\<And>a b k l n1 t a3. le2 n k l = Some (-1) \<Longrightarrow> muda n a b k l = Some n1 \<Longrightarrow>
      destino_r8 P s tent per sal n1 a3 t = Some (n', rs') \<Longrightarrow> length t < length rs \<Longrightarrow> conserva n n'"
    by (blast intro: conserva_trans muda_conserva IH)
  show ?case
  proof (cases rs)
    case Nil
    with 1(2) show ?thesis by simp
  next
    case (Cons v1 r1)
    with 1(2) show ?thesis
      by (auto simp: Let_def bind_eq_Some_conv conserva_refl split: if_splits list.splits
              intro: troca1 muda1 IH muda_conserva troca_conserva leva_conserva)
  qed
qed

lemma destino_r9_conserva:
  "destino_r9 P s tent dia_destino per_fonte sala_fonte n aux3 rs = Some (n', rs') \<Longrightarrow> conserva n n'"
proof (induction rs arbitrary: n aux3 rule: length_induct)
  case (1 rs)
  have IH: "\<And>m t a3. destino_r9 P s tent dia_destino per_fonte sala_fonte m a3 t = Some (n', rs') \<Longrightarrow> length t < length rs \<Longrightarrow> conserva m n'"
    using 1(1) by blast
  have troca1: "\<And>i j k l n1 t a3. troca n i j k l = Some n1 \<Longrightarrow>
      destino_r9 P s tent dia_destino per_fonte sala_fonte n1 a3 t = Some (n', rs') \<Longrightarrow> length t < length rs \<Longrightarrow> conserva n n'"
    by (blast intro: conserva_trans troca_conserva IH)
  have muda1: "\<And>a b k l n1 t a3. le2 n k l = Some (-1) \<Longrightarrow> muda n a b k l = Some n1 \<Longrightarrow>
      destino_r9 P s tent dia_destino per_fonte sala_fonte n1 a3 t = Some (n', rs') \<Longrightarrow> length t < length rs \<Longrightarrow> conserva n n'"
    by (blast intro: conserva_trans muda_conserva IH)
  from 1(2) show ?case
    by (subst (asm) destino_r9.simps)
       (auto simp: Let_def bind_eq_Some_conv conserva_refl split: if_splits list.splits
              intro: troca1 muda1 IH muda_conserva troca_conserva leva_conserva)
qed

lemma destino_r10_conserva:
  "destino_r10 P tent aux per sal n aux3 rs = Some (n', rs') \<Longrightarrow> conserva n n'"
proof (induction rs arbitrary: n aux3 rule: length_induct)
  case (1 rs)
  have IH: "\<And>m t a3. destino_r10 P tent aux per sal m a3 t = Some (n', rs') \<Longrightarrow> length t < length rs \<Longrightarrow> conserva m n'"
    using 1(1) by blast
  have troca1: "\<And>i j k l n1 t a3. troca n i j k l = Some n1 \<Longrightarrow>
      destino_r10 P tent aux per sal n1 a3 t = Some (n', rs') \<Longrightarrow> length t < length rs \<Longrightarrow> conserva n n'"
    by (blast intro: conserva_trans troca_conserva IH)
  have muda1: "\<And>a b k l n1 t a3. le2 n k l = Some (-1) \<Longrightarrow> muda n a b k l = Some n1 \<Longrightarrow>
      destino_r10 P tent aux per sal n1 a3 t = Some (n', rs') \<Longrightarrow> length t < length rs \<Longrightarrow> conserva n n'"
    by (blast intro: conserva_trans muda_conserva IH)
  show ?case
  proof (cases rs)
    case Nil
    with 1(2) show ?thesis by simp
  next
    case (Cons v1 r1)
    show ?thesis
    proof (cases r1)
      case Nil
      with Cons 1(2) show ?thesis by simp
    next
      case (Cons v2 r2)
      with \<open>rs = v1 # r1\<close> 1(2) show ?thesis
        by (auto simp: Let_def bind_eq_Some_conv conserva_refl split: if_splits list.splits
              intro: troca1 muda1 IH muda_conserva troca_conserva leva_conserva)
    qed
  qed
qed

lemma destino_r11_conserva:
  "destino_r11 P tent dia_r11 per_r11 sal_r11 n aux3 rs = Some (n', rs') \<Longrightarrow> conserva n n'"
proof (induction rs arbitrary: n aux3 rule: length_induct)
  case (1 rs)
  have IH: "\<And>m t a3. destino_r11 P tent dia_r11 per_r11 sal_r11 m a3 t = Some (n', rs') \<Longrightarrow> length t < length rs \<Longrightarrow> conserva m n'"
    using 1(1) by blast
  have troca1: "\<And>i j k l n1 t a3. troca n i j k l = Some n1 \<Longrightarrow>
      destino_r11 P tent dia_r11 per_r11 sal_r11 n1 a3 t = Some (n', rs') \<Longrightarrow> length t < length rs \<Longrightarrow> conserva n n'"
    by (blast intro: conserva_trans troca_conserva IH)
  have muda1: "\<And>a b k l n1 t a3. le2 n k l = Some (-1) \<Longrightarrow> muda n a b k l = Some n1 \<Longrightarrow>
      destino_r11 P tent dia_r11 per_r11 sal_r11 n1 a3 t = Some (n', rs') \<Longrightarrow> length t < length rs \<Longrightarrow> conserva n n'"
    by (blast intro: conserva_trans muda_conserva IH)
  from 1(2) show ?case
    by (subst (asm) destino_r11.simps)
       (auto simp: Let_def bind_eq_Some_conv conserva_refl split: if_splits list.splits
              intro: troca1 muda1 IH muda_conserva troca_conserva leva_conserva)
qed

lemma mov_r21_conserva: "mov_r21 P T s n rs = Some (n', s', rs') \<Longrightarrow> conserva n n'"
  by (auto simp: mov_r21_def bind_eq_Some_conv split: if_splits prod.splits
        dest: destino_r21_conserva mov_aleatorio_conserva)

lemma mov_r22_conserva: "mov_r22 P T s n rs = Some (n', s', rs') \<Longrightarrow> conserva n n'"
  by (auto simp: mov_r22_def bind_eq_Some_conv split: if_splits prod.splits
        dest: destino_r22_conserva mov_aleatorio_conserva)

lemma mov_r6_conserva: "mov_r6 P T s n rs = Some (n', s', rs') \<Longrightarrow> conserva n n'"
  by (auto simp: mov_r6_def bind_eq_Some_conv split: if_splits prod.splits
        dest: destino_r6_conserva)

lemma mov_r7_conserva: "mov_r7 P T s n rs = Some (n', s', rs') \<Longrightarrow> conserva n n'"
  by (auto simp: mov_r7_def bind_eq_Some_conv split: if_splits prod.splits
        dest: destino_r7_conserva)

lemma mov_r8_conserva: "mov_r8 P T s n rs = Some (n', s', rs') \<Longrightarrow> conserva n n'"
  by (auto simp: mov_r8_def Let_def bind_eq_Some_conv split: if_splits prod.splits list.splits
        dest: destino_r8_conserva)

lemma quando_triv: "(\<And>x. Q x) \<Longrightarrow> quando m Q"
  by (simp add: quando_def)

lemma destino_r9_quando:
  "quando (destino_r9 P s tent dia_destino per_fonte sala_fonte n aux3 rs) (\<lambda>x. conserva n (fst x))"
  by (auto simp: quando_def dest: destino_r9_conserva)

lemma mov_r9_conserva: "mov_r9 P T s n rs = Some (n', s', rs') \<Longrightarrow> conserva n n'"
proof -
  have "quando (mov_r9 P T s n rs) (\<lambda>x. conserva n (fst x))"
    unfolding mov_r9_def
    by (auto intro!: quando_triv simp: conserva_refl destino_r9_quando
          split: list.split option.split)
  then show "mov_r9 P T s n rs = Some (n', s', rs') \<Longrightarrow> conserva n n'"
    by (auto dest: quandoD)
qed

lemma mov_r10_conserva: "mov_r10 P T s n rs = Some (n', s', rs') \<Longrightarrow> conserva n n'"
  by (auto simp: mov_r10_def bind_eq_Some_conv split: if_splits prod.splits
        dest: destino_r10_conserva)

lemma mov_r11_conserva: "mov_r11 P T s n rs = Some (n', s', rs') \<Longrightarrow> conserva n n'"
  by (auto simp: mov_r11_def bind_eq_Some_conv conserva_refl
        split: if_splits prod.splits option.splits
        dest: destino_r11_conserva)

lemma movs_quando:
  "quando (mov_r21 P T s n rs) (\<lambda>x. conserva n (fst x))"
  "quando (mov_r22 P T s n rs) (\<lambda>x. conserva n (fst x))"
  "quando (mov_r6 P T s n rs) (\<lambda>x. conserva n (fst x))"
  "quando (mov_r7 P T s n rs) (\<lambda>x. conserva n (fst x))"
  "quando (mov_r8 P T s n rs) (\<lambda>x. conserva n (fst x))"
  "quando (mov_r9 P T s n rs) (\<lambda>x. conserva n (fst x))"
  "quando (mov_r10 P T s n rs) (\<lambda>x. conserva n (fst x))"
  "quando (mov_r11 P T s n rs) (\<lambda>x. conserva n (fst x))"
  by (auto simp: quando_def
        dest: mov_r21_conserva mov_r22_conserva mov_r6_conserva mov_r7_conserva
          mov_r8_conserva mov_r9_conserva mov_r10_conserva mov_r11_conserva)

lemma so_grade_quando:
  "quando r (\<lambda>x. conserva n (fst x)) \<Longrightarrow> quando (so_grade s r) (\<lambda>x. conserva n (fst x))"
  by (auto simp: quando_def so_grade_def)

lemma trocas_quando:
  "quando (mov_periodo P T n rs) (\<lambda>x. conserva n (fst x))"
  "quando (mov_sala P T n rs) (\<lambda>x. conserva n (fst x))"
  "quando (mov_aleatorio P T n rs) (\<lambda>x. conserva n (fst x))"
  by (auto simp: quando_def dest: mov_periodo_conserva mov_sala_conserva mov_aleatorio_conserva)

lemma geraViz_conserva: "geraViz P T s n rs = Some (n', s', rs') \<Longrightarrow> conserva n n'"
proof -
  have "quando (geraViz P T s n rs) (\<lambda>x. conserva n (fst x))"
    unfolding geraViz_def
    by (simp add: movs_quando so_grade_quando trocas_quando split: list.split)
  then show "geraViz P T s n rs = Some (n', s', rs') \<Longrightarrow> conserva n n'"
    by (auto dest: quandoD)
qed


subsection \<open>The width of the objective\<close>

text \<open>Every statement that changes \<open>fo\<close> stores a value of 32 bits.\<close>

lemma quando_verdade [simp]: "quando m (\<lambda>x. True)"
  by (simp add: quando_def)

lemma passo_r4_lim:
  "c_int (fst u) = fst u \<Longrightarrow> quando (passo_r4 Q i j c u) (\<lambda>u'. c_int (fst u') = fst u')"
  by (cases u) (simp add: passo_r4_def)

lemma passo_r7_lim:
  "quando (passo_r7 Q i j c (c_int x, s)) (\<lambda>u'. c_int (fst u') = fst u')"
  by (simp add: passo_r7_def)

lemma passo_r8_lim:
  "c_int (fst u) = fst u \<Longrightarrow> quando (passo_r8 Q i j c u) (\<lambda>u'. c_int (fst u') = fst u')"
  by (cases u) (simp add: passo_r8_def)

lemma passo_r10_lim:
  "c_int (fst u) = fst u \<Longrightarrow> quando (passo_r10 Q i j c u) (\<lambda>u'. c_int (fst u') = fst u')"
  by (cases u) (simp add: passo_r10_def)

lemma visita_lim:
  assumes "visita Q n i j u = Some u'" "c_int (fst u) = fst u"
  shows "c_int (fst u') = fst u'"
proof (cases "le2 n (int i) (int j) = Some (-1)")
  case True
  with assms show ?thesis by (simp add: visita_vazia)
next
  case False
  obtain fo s fo' s' where u: "u = (fo, s)" "u' = (fo', s')"
    by (cases u, cases u') auto
  from assms(1) [unfolded u] False show ?thesis
  proof (rule visita_passos)
    fix c s1 s2 s3 fo4 s4 s5 pen s6 fo7 s7 fo8 s8 s9 s10
    assume p: "passo_r4 Q i j c (fo, s3) = Some (fo4, s4)"
      "passo_r7 Q i j c (c_int (fo4 + pen), s6) = Some (fo7, s7)"
      "passo_r8 Q i j c (fo7, s7) = Some (fo8, s8)"
      "passo_r10 Q i j c (fo8, s9) = Some (fo', s10)"
    from quandoD [OF passo_r7_lim p(2)] have "c_int fo7 = fo7" by simp
    with quandoD [OF passo_r8_lim p(3)] have "c_int fo8 = fo8" by simp
    with quandoD [OF passo_r10_lim p(4)] show ?thesis by (simp add: u)
  qed
qed

lemma percorre_lim:
  assumes "percorre Q n a = Some a'" "c_int (fst a) = fst a"
  shows "c_int (fst a') = fst a'"
proof -
  let ?R = "\<lambda>a a'. c_int (fst a) = fst a \<longrightarrow> c_int (fst a') = fst a'"
  have passo: "?R t t'" if "visita Q n i j t = Some t'" for i j t t'
    using visita_lim [OF that] by simp
  have linha: "?R t t'" if "para (salas Q) (visita Q n i) t = Some t'" for i t t'
    by (rule para_rel [where R = ?R, OF that]) (use passo in auto)
  have "?R a a'"
    by (rule para_rel [where R = ?R, OF assms(1) [unfolded percorre_def]]) (use linha in auto)
  with assms(2) show ?thesis by simp
qed

lemma conflito_r2_lim:
  "c_int (fst u) = fst u \<Longrightarrow> quando (conflito_r2 x peso u) (\<lambda>u'. c_int (fst u') = fst u')"
  by (cases u) (simp add: conflito_r2_def)

lemma pos_r2_lim:
  assumes "pos_r2 Q a = Some a'" "c_int (fst a) = fst a"
  shows "c_int (fst a') = fst a'"
proof -
  let ?R = "\<lambda>a a'. c_int (fst a) = fst a \<longrightarrow> c_int (fst a') = fst a'"
  have c: "?R t t'" if "conflito_r2 x peso t = Some t'" for x peso t t'
    using quandoD [OF conflito_r2_lim that] by simp
  have p: "?R t t'" if "pos_r21 i j t = Some t'" for i j t t'
  proof -
    from that obtain y where "conflito_r2 y 1 t = Some t'"
      by (auto simp: pos_r21_def bind_eq_Some_conv)
    then show ?thesis by (rule c)
  qed
  have q: "?R t t'" if "pos_r22 i j t = Some t'" for i j t t'
  proof -
    from that obtain y where "conflito_r2 y 1000 t = Some t'"
      by (auto simp: pos_r22_def bind_eq_Some_conv)
    then show ?thesis by (rule c)
  qed
  have lp: "?R t t'" if "para k (pos_r21 i) t = Some t'" for k i t t'
    by (rule para_rel [where R = ?R, OF that]) (use p in auto)
  have lq: "?R t t'" if "para k (pos_r22 i) t = Some t'" for k i t t'
    by (rule para_rel [where R = ?R, OF that]) (use q in auto)
  have per: "?R t t'" if "pos_r2_periodo Q i t = Some t'" for i t t'
  proof -
    from that obtain u where "para (professores Q) (pos_r21 i) t = Some u"
      "para (cursos Q) (pos_r22 i) u = Some t'"
      by (auto simp: pos_r2_periodo_def bind_eq_Some_conv)
    with lp [of "professores Q" i t u] lq [of "cursos Q" i u t'] show ?thesis by simp
  qed
  have "?R a a'"
    by (rule para_rel [where R = ?R, OF assms(1) [unfolded pos_r2_def]]) (use per in auto)
  with assms(2) show ?thesis by simp
qed

lemma pos_r1_r5_disc_lim:
  "c_int (fst u) = fst u \<Longrightarrow> quando (pos_r1_r5_disc Q i u) (\<lambda>u'. c_int (fst u') = fst u')"
  by (cases u) (simp add: pos_r1_r5_disc_def)

lemma pos_r9_prof_lim:
  "c_int (fst u) = fst u \<Longrightarrow> quando (pos_r9_prof Q i u) (\<lambda>u'. c_int (fst u') = fst u')"
  by (cases u) (simp add: pos_r9_prof_def)

lemma pos_r11_disc_lim:
  "c_int (fst u) = fst u \<Longrightarrow> quando (pos_r11_disc i j u) (\<lambda>u'. c_int (fst u') = fst u')"
  by (cases u) (simp add: pos_r11_disc_def)

lemma pos_resto_lim:
  assumes "pos_r1_r5 Q a = Some b" "pos_r9 Q b = Some c" "pos_r11 Q c = Some a'"
    and "c_int (fst a) = fst a"
  shows "c_int (fst a') = fst a'"
proof -
  let ?R = "\<lambda>a a'. c_int (fst a) = fst a \<longrightarrow> c_int (fst a') = fst a'"
  have p1: "?R t t'" if "pos_r1_r5_disc Q i t = Some t'" for i t t'
    using quandoD [OF pos_r1_r5_disc_lim that] by simp
  have p9: "?R t t'" if "pos_r9_prof Q i t = Some t'" for i t t'
    using quandoD [OF pos_r9_prof_lim that] by simp
  have p11: "?R t t'" if "pos_r11_disc i j t = Some t'" for i j t t'
    using quandoD [OF pos_r11_disc_lim that] by simp
  have l11: "?R t t'" if "para k (pos_r11_disc i) t = Some t'" for k i t t'
    by (rule para_rel [where R = ?R, OF that]) (use p11 in auto)
  have "?R a b"
    by (rule para_rel [where R = ?R, OF assms(1) [unfolded pos_r1_r5_def]]) (use p1 in auto)
  moreover have "?R b c"
    by (rule para_rel [where R = ?R, OF assms(2) [unfolded pos_r9_def]]) (use p9 in auto)
  moreover have "?R c a'"
    by (rule para_rel [where R = ?R, OF assms(3) [unfolded pos_r11_def]]) (use l11 in auto)
  ultimately show ?thesis using assms(4) by simp
qed




subsection \<open>What the classes of \<open>geraViz\<close> do to the indices\<close>

text \<open>The searches return a witness: an entry that is not -1.\<close>

lemma escolhe_achado:
  "escolhe v P i rs = Some (aux, rs') \<Longrightarrow> \<exists>x. v aux = Some x \<and> x \<noteq> -1"
  by (induction rs arbitrary: i) (auto simp: Let_def bind_eq_Some_conv split: if_splits)

lemma escolhe_r6_quando:
  "quando (escolhe_r6 P m k l rs)
     (\<lambda>a. 0 \<le> fst a \<and> nat (fst a) < length m \<and> 0 \<le> fst (snd a) \<and>
       nat (fst (snd a)) < length (m ! nat (fst a)) \<and> m ! nat (fst a) ! nat (fst (snd a)) \<noteq> -1)"
proof (induction rs arbitrary: k l rule: length_induct)
  case (1 rs)
  have IH: "quando (escolhe_r6 P m k l t)
     (\<lambda>a. 0 \<le> fst a \<and> nat (fst a) < length m \<and> 0 \<le> fst (snd a) \<and>
       nat (fst (snd a)) < length (m ! nat (fst a)) \<and> m ! nat (fst a) ! nat (fst (snd a)) \<noteq> -1)"
    if "length t < length rs" for k l t
    using 1 that by blast
  show ?case
  proof (cases rs)
    case Nil
    then show ?thesis by simp
  next
    case (Cons v1 r1)
    show ?thesis
    proof (cases r1)
      case Nil
      with Cons show ?thesis by simp
    next
      case (Cons v2 r2)
      with \<open>rs = v1 # r1\<close> show ?thesis
        by (simp add: Let_def IH c_mod_def)
    qed
  qed
qed

lemma escolhe_r6_achado:
  "escolhe_r6 P m k l rs = Some (i, j, rs') \<Longrightarrow> \<exists>x. le2 m i j = Some x \<and> x \<noteq> -1"
  using quandoD [OF escolhe_r6_quando, of P m k l rs "(i, j, rs')"] by (simp add: le2_Some)

lemma procura_r11_achado:
  "procura_r11 m ps = Some (Some (per, sal)) \<Longrightarrow> \<exists>x. le2 m per sal = Some x \<and> x \<noteq> -1"
  by (induction ps) (auto simp: bind_eq_Some_conv split: if_splits)

lemma mov_r21_indices:
  assumes "mov_r21 P T s n rs = Some (n', s', rs')" "1 < resto (restricoes_violadas s ! 2) 1000"
  shows "\<exists>aux < length (aux_mov_r21 s). aux_mov_r21 s ! aux \<noteq> -1 \<and>
     s' = s\<lparr>aux_mov_r21 := (aux_mov_r21 s)[aux := -1],
            restricoes_violadas := (restricoes_violadas s)[2 := restricoes_violadas s ! 2 - 1]\<rparr>"
proof -
  from assms obtain aux rs1 where e: "escolhe (le (aux_mov_r21 s)) P 0 rs = Some (aux, rs1)"
    and s': "s' = s\<lparr>aux_mov_r21 := (aux_mov_r21 s)[nat aux := -1],
            restricoes_violadas := (restricoes_violadas s)[2 := restricoes_violadas s ! 2 - 1]\<rparr>"
    by (auto simp: mov_r21_def bind_eq_Some_conv le_Some esc_Some split: if_splits)
  from escolhe_achado [OF e] have "nat aux < length (aux_mov_r21 s)" "aux_mov_r21 s ! nat aux \<noteq> -1"
    by (auto simp: le_Some)
  with s' show ?thesis by blast
qed

lemma mov_r22_indices:
  assumes "mov_r22 P T s n rs = Some (n', s', rs')" "1000 < restricoes_violadas s ! 2"
  shows "\<exists>aux < length (aux_mov_r22 s). aux_mov_r22 s ! aux \<noteq> -1 \<and>
     s' = s\<lparr>aux_mov_r22 := (aux_mov_r22 s)[aux := -1],
            restricoes_violadas := (restricoes_violadas s)[2 := restricoes_violadas s ! 2 - 1000]\<rparr>"
proof -
  from assms obtain aux rs1 where e: "escolhe (le (aux_mov_r22 s)) P 0 rs = Some (aux, rs1)"
    and s': "s' = s\<lparr>aux_mov_r22 := (aux_mov_r22 s)[nat aux := -1],
            restricoes_violadas := (restricoes_violadas s)[2 := restricoes_violadas s ! 2 - 1000]\<rparr>"
    by (auto simp: mov_r22_def bind_eq_Some_conv le_Some esc_Some split: if_splits)
  from escolhe_achado [OF e] have "nat aux < length (aux_mov_r22 s)" "aux_mov_r22 s ! nat aux \<noteq> -1"
    by (auto simp: le_Some)
  with s' show ?thesis by blast
qed

lemma mov_r6_indices:
  assumes "mov_r6 P T s n rs = Some (n', s', rs')"
  shows "\<exists>i < length (aux_mov_r6 s). \<exists>j < length (aux_mov_r6 s ! i).
     aux_mov_r6 s ! i ! j \<noteq> -1 \<and> aux_mov_r6 s' ! i ! j = -1 \<and>
     s' = s\<lparr>restricoes_violadas := (restricoes_violadas s)[6 := restricoes_violadas s ! 6 - 2],
            aux_mov_r6 := aux_mov_r6 s'\<rparr>"
proof -
  from assms obtain i j rs1 m m' where e: "escolhe_r6 P (aux_mov_r6 s) 0 0 rs = Some (i, j, rs1)"
    and w: "esc2 m i j (-1) = Some m'"
    and s': "s' = s\<lparr>restricoes_violadas := (restricoes_violadas s)[6 := restricoes_violadas s ! 6 - 2],
            aux_mov_r6 := m'\<rparr>"
    by (auto simp: mov_r6_def bind_eq_Some_conv le_Some esc_Some split: if_splits)
  from escolhe_r6_achado [OF e]
  have "nat i < length (aux_mov_r6 s)" "nat j < length (aux_mov_r6 s ! nat i)"
    "aux_mov_r6 s ! nat i ! nat j \<noteq> -1" and p: "0 \<le> i" "0 \<le> j"
    by (auto simp: le2_Some)
  moreover from w have "m' ! nat i ! nat j = -1"
    by (auto simp: esc2_Some)
  ultimately show ?thesis
    using s' by auto
qed

lemma esc2_duas:
  "esc2 m a 0 x = Some m1 \<Longrightarrow> esc2 m1 a 1 y = Some m2 \<Longrightarrow>
     m2 = m[nat a := (m ! nat a)[0 := x, 1 := y]]"
  by (auto simp: esc2_Some)

lemma mov_r7_indices:
  assumes "mov_r7 P T s n rs = Some (n', s', rs')"
  shows "\<exists>aux < length (aux_mov_r7 s). aux_mov_r7 s ! aux ! 0 \<noteq> -1 \<and>
     s' = s\<lparr>restricoes_violadas := (restricoes_violadas s)[7 := restricoes_violadas s ! 7 - 1],
            aux_mov_r7 := (aux_mov_r7 s)[aux := (aux_mov_r7 s ! aux)[0 := -1, 1 := -1]]\<rparr>"
proof -
  from assms obtain aux rs1 m1 m2 where e: "escolhe (\<lambda>j. le2 (aux_mov_r7 s) j 0) P 0 rs = Some (aux, rs1)"
    and w: "esc2 (aux_mov_r7 s) aux 0 (-1) = Some m1" "esc2 m1 aux 1 (-1) = Some m2"
    and s': "s' = s\<lparr>restricoes_violadas := (restricoes_violadas s)[7 := restricoes_violadas s ! 7 - 1],
            aux_mov_r7 := m2\<rparr>"
    by (auto simp: mov_r7_def bind_eq_Some_conv le_Some esc_Some split: if_splits)
  from escolhe_achado [OF e] have "nat aux < length (aux_mov_r7 s)" "aux_mov_r7 s ! nat aux ! 0 \<noteq> -1"
    by (auto simp: le2_Some)
  with s' esc2_duas [OF w] show ?thesis by blast
qed

lemma mov_r10_indices:
  assumes "mov_r10 P T s n rs = Some (n', s', rs')"
  shows "\<exists>aux < length (aux_mov_r10 s). aux_mov_r10 s ! aux ! 0 \<noteq> -1 \<and>
     s' = s\<lparr>restricoes_violadas := (restricoes_violadas s)[10 := restricoes_violadas s ! 10 - 1],
            aux_mov_r10 := (aux_mov_r10 s)[aux := (aux_mov_r10 s ! aux)[0 := -1, 1 := -1]]\<rparr>"
proof -
  from assms obtain aux rs1 m1 m2 where e: "escolhe (\<lambda>j. le2 (aux_mov_r10 s) j 0) P 0 rs = Some (aux, rs1)"
    and w: "esc2 (aux_mov_r10 s) aux 0 (-1) = Some m1" "esc2 m1 aux 1 (-1) = Some m2"
    and s': "s' = s\<lparr>restricoes_violadas := (restricoes_violadas s)[10 := restricoes_violadas s ! 10 - 1],
            aux_mov_r10 := m2\<rparr>"
    by (auto simp: mov_r10_def bind_eq_Some_conv le_Some esc_Some split: if_splits)
  from escolhe_achado [OF e] have "nat aux < length (aux_mov_r10 s)" "aux_mov_r10 s ! nat aux ! 0 \<noteq> -1"
    by (auto simp: le2_Some)
  with s' esc2_duas [OF w] show ?thesis by blast
qed

lemma mov_r8_indices:
  assumes "mov_r8 P T s n rs = Some (n', s', rs')"
  shows "restricoes_violadas s' = (restricoes_violadas s)[8 := restricoes_violadas s ! 8 - 1]"
  using assms
  by (auto simp: mov_r8_def Let_def bind_eq_Some_conv le_Some esc_Some split: if_splits list.splits)

lemma mov_r9_indices: "mov_r9 P T s n rs = Some (n', s', rs') \<Longrightarrow> s' = s"
proof -
  have "quando (mov_r9 P T s n rs) (\<lambda>x. fst (snd x) = s)"
    unfolding mov_r9_def
    by (auto intro!: quando_triv split: list.split option.split)
  then show "mov_r9 P T s n rs = Some (n', s', rs') \<Longrightarrow> s' = s"
    by (auto dest: quandoD)
qed

lemma mov_r11_indices:
  assumes "mov_r11 P T s n rs = Some (n', s', rs')"
  shows "n' = n \<and> aux_mov_r11 s' = aux_mov_r11 s \<or>
      (\<exists>per < length (aux_mov_r11 s). \<exists>sal < length (aux_mov_r11 s ! per).
         aux_mov_r11 s ! per ! sal \<noteq> -1 \<and>
         aux_mov_r11 s' = (aux_mov_r11 s)[per := (aux_mov_r11 s ! per)[sal := -1]])"
proof -
  from assms obtain achado where
    p: "procura_r11 (aux_mov_r11 s) (celulas (map int [0..<total_periodos P]) (salas P)) = Some achado"
    and r: "(case achado of None \<Rightarrow> Some (n, s, rs)
      | Some (per_r11, sal_r11) \<Rightarrow> do {
          dia_r11 \<leftarrow> c_div per_r11 (int (periodos_dia P));
          (n', rs') \<leftarrow> destino_r11 P (tentativas T) dia_r11 per_r11 sal_r11 n 0 rs;
          m \<leftarrow> esc2 (aux_mov_r11 s) per_r11 sal_r11 (-1);
          Some (n', s\<lparr>aux_mov_r11 := m\<rparr>, rs') }) = Some (n', s', rs')"
    by (auto simp: mov_r11_def bind_eq_Some_conv)
  show ?thesis
  proof (cases achado)
    case None
    with r show ?thesis by simp
  next
    case (Some a)
    obtain per sal where a: "a = (per, sal)" by (cases a)
    from procura_r11_achado [OF p [unfolded Some a]]
    have "nat per < length (aux_mov_r11 s)" "nat sal < length (aux_mov_r11 s ! nat per)"
      "aux_mov_r11 s ! nat per ! nat sal \<noteq> -1"
      by (auto simp: le2_Some)
    moreover from r Some a
    have "aux_mov_r11 s' = (aux_mov_r11 s)[nat per := (aux_mov_r11 s ! nat per)[nat sal := -1]]"
      by (auto simp: bind_eq_Some_conv esc2_Some)
    ultimately show ?thesis by blast
  qed
qed




end
